theory Spec2Isabelle
  imports Main "HOL-Library.AList"
begin

section \<open>StockReader: a shallow embedding of StockReader.py\<close>

text \<open>
  The script is a linear pipeline over library calls: read a key, read two console lines,
  issue one HTTP GET, tabulate the bars, write a text table and draw a chart. The model
  keeps the control flow of each function of the source and makes every effect explicit:
  the console, standard input, the clock, the files written and the plotting calls are
  fields of a state record; what the outside world answers (the environment variable, the
  lines typed, the clock readings, the HTTP response, which library call raises) is a
  record of parameters. An exception is a value: a function returns \<open>Inl e\<close> when the
  Python function would leave by raising \<open>e\<close>.

  Text is a list of 8-bit characters and is modelled as ASCII; a character from 128 on
  stands for a character beyond ASCII, of which the model says only what \<open>str.upper()\<close>
  makes of it (the library's case mapping, a parameter). The interpreter is CPython 3.11
  on a system with the GNU C library. Exceptions are those of class \<open>Exception\<close>;
  asynchronous interrupts are outside the model, and \<open>print\<close> never fails.
\<close>

subsection \<open>Strings\<close>

definition ascii_lowercase :: string where
  "ascii_lowercase = ''abcdefghijklmnopqrstuvwxyz''"

definition ascii_uppercase :: string where
  "ascii_uppercase = ''ABCDEFGHIJKLMNOPQRSTUVWXYZ''"

text \<open>The upper-case form of an ASCII character: a letter of \<open>a\<close> to \<open>z\<close> changes.\<close>

definition upper_char :: "char \<Rightarrow> char" where
  "upper_char c = (case map_of (zip ascii_lowercase ascii_uppercase) c of
                     Some u \<Rightarrow> u | None \<Rightarrow> c)"

definition is_ascii :: "char \<Rightarrow> bool" where
  "is_ascii c = (of_char c < (128 :: nat))"

definition isdigit :: "char \<Rightarrow> bool" where
  "isdigit c = (c \<in> set ''0123456789'')"

text \<open>
  The characters \<open>str.strip()\<close> treats as white space, within ASCII: tab, line feed,
  vertical tab, form feed, carriage return, the four separators \<open>0x1C\<close> to \<open>0x1F\<close>,
  and the space.
\<close>

definition whitespace :: "char list" where
  "whitespace = [CHR 0x09, CHR 0x0A, CHR 0x0B, CHR 0x0C, CHR 0x0D,
                 CHR 0x1C, CHR 0x1D, CHR 0x1E, CHR 0x1F, CHR 0x20]"

definition isspace :: "char \<Rightarrow> bool" where
  "isspace c = (c \<in> set whitespace)"

definition strip :: "string \<Rightarrow> string" where
  "strip s = rev (dropWhile isspace (rev (dropWhile isspace s)))"

text \<open>Left-justification to a width, as the format specification \<open>:<w\<close> does.\<close>

definition ljust :: "nat \<Rightarrow> string \<Rightarrow> string" where
  "ljust w s = s @ replicate (w - length s) CHR '' ''"

definition zfill :: "nat \<Rightarrow> string \<Rightarrow> string" where
  "zfill w s = replicate (w - length s) CHR ''0'' @ s"

definition digit_char :: "nat \<Rightarrow> char" where
  "digit_char d = ''0123456789'' ! d"

fun str_nat :: "nat \<Rightarrow> string" where
  "str_nat n = (if n < 10 then [digit_char n]
                else str_nat (n div 10) @ [digit_char (n mod 10)])"

declare str_nat.simps [simp del]

text \<open>\<open>str(n)\<close> for a Python integer.\<close>

definition str_int :: "int \<Rightarrow> string" where
  "str_int i = (if i < 0 then CHR ''-'' # str_nat (nat (- i)) else str_nat (nat i))"

text \<open>
  \<open>repr(s)\<close> of a string: double quotes when the string holds a single quote and no
  double quote, single quotes otherwise; the quote and the backslash are escaped by a
  backslash, tab, line feed and carriage return are written as a backslash and \<open>t\<close>,
  \<open>n\<close>, \<open>r\<close>, and the other control characters as a backslash, \<open>x\<close> and two
  hexadecimal digits.
\<close>

definition hex_digit :: "nat \<Rightarrow> char" where
  "hex_digit d = ''0123456789abcdef'' ! d"

definition repr_char :: "char \<Rightarrow> char \<Rightarrow> string" where
  "repr_char quote c =
     (if c = quote \<or> c = CHR 0x5C then [CHR 0x5C, c]
      else if c = CHR 0x09 then [CHR 0x5C, CHR ''t'']
      else if c = CHR 0x0A then [CHR 0x5C, CHR ''n'']
      else if c = CHR 0x0D then [CHR 0x5C, CHR ''r'']
      else if (of_char c :: nat) < 32 \<or> (of_char c :: nat) = 127
        then [CHR 0x5C, CHR ''x'', hex_digit (of_char c div 16), hex_digit (of_char c mod 16)]
      else [c])"

definition repr :: "string \<Rightarrow> string" where
  "repr s =
     (let quote = (if CHR 0x27 \<in> set s \<and> CHR 0x22 \<notin> set s then CHR 0x22 else CHR 0x27)
      in quote # concat (map (repr_char quote) s) @ [quote])"

subsection \<open>Exceptions\<close>

datatype exn_class =
    ValueError | OverflowError | IndexError | EOFError | OSError | TypeError | KeyError
  | ConnectionError | JSONDecodeError | OutOfBoundsDatetime | RuntimeError

datatype exn = Exn (cls: exn_class) (message: string)

subsection \<open>\<open>int(s)\<close> on a string\<close>

definition digit_val :: "char \<Rightarrow> nat option" where
  "digit_val c = map_of (zip ''0123456789'' [0, 1, 2, 3, 4, 5, 6, 7, 8, 9]) c"

text \<open>
  Decimal digits with single underscores allowed between digits. The flag records
  whether the previous character was a digit.
\<close>

fun digits_value :: "string \<Rightarrow> nat \<Rightarrow> bool \<Rightarrow> nat option" where
  "digits_value [] acc prev = (if prev then Some acc else None)"
| "digits_value (c # cs) acc prev =
     (if c = CHR ''_'' then (if prev then digits_value cs acc False else None)
      else case digit_val c of
             None \<Rightarrow> None
           | Some d \<Rightarrow> digits_value cs (10 * acc + d) True)"

text \<open>
  The characters \<open>int()\<close> skips around the number: tab, line feed, vertical tab, form
  feed, carriage return and the space. The separators \<open>0x1C\<close> to \<open>0x1F\<close>, white space
  for \<open>str.strip()\<close>, are not among them.
\<close>

definition int_whitespace :: "char list" where
  "int_whitespace = [CHR 0x09, CHR 0x0A, CHR 0x0B, CHR 0x0C, CHR 0x0D, CHR 0x20]"

definition int_isspace :: "char \<Rightarrow> bool" where
  "int_isspace c = (c \<in> set int_whitespace)"

definition int_strip :: "string \<Rightarrow> string" where
  "int_strip s = rev (dropWhile int_isspace (rev (dropWhile int_isspace s)))"

text \<open>The text after one optional sign.\<close>

definition unsigned :: "string \<Rightarrow> string" where
  "unsigned s =
     (case s of
        [] \<Rightarrow> []
      | c # cs \<Rightarrow> if c = CHR ''-'' \<or> c = CHR ''+'' then cs else c # cs)"

text \<open>The interpreter converts no text of more than this many digits.\<close>

definition int_max_str_digits :: nat where
  "int_max_str_digits = 4300"

text \<open>
  \<open>int(s)\<close>: the white space around the number is skipped, one sign is allowed, the
  rest must be decimal digits (with single underscores between them), no more than the
  limit, leading zeros counted. \<open>None\<close> is the \<open>ValueError\<close> of the source.
\<close>

definition py_int :: "string \<Rightarrow> int option" where
  "py_int s =
     (let body = unsigned (int_strip s)
      in if length (filter isdigit body) > int_max_str_digits then None
         else map_option (\<lambda>n. if take 1 (int_strip s) = ''-'' then - int n else int n)
                (digits_value body 0 False))"

text \<open>
  The \<open>ValueError\<close> of \<open>int(s)\<close>: the limit is reported when the run of digits and
  underscores after the sign is well formed and too long, an invalid literal otherwise
  (with at most 200 characters of \<open>repr(s)\<close>).
\<close>

definition int_error :: "string \<Rightarrow> exn" where
  "int_error s =
     (let digit_run = takeWhile (\<lambda>c. isdigit c \<or> c = CHR ''_'') (unsigned (int_strip s));
          digits = length (filter isdigit digit_run)
      in if digits_value digit_run 0 False \<noteq> None \<and> digits > int_max_str_digits
         then Exn ValueError
                (''Exceeds the limit ('' @ str_nat int_max_str_digits
                   @ '') for integer string conversion: value has '' @ str_nat digits
                   @ '' digits; use sys.set_int_max_str_digits() to increase the limit'')
         else Exn ValueError (''invalid literal for int() with base 10: '' @ take 200 (repr s)))"

subsection \<open>Dates\<close>

text \<open>
  A \<open>datetime\<close> is its proleptic Gregorian ordinal (day 1 is 0001-01-01) and the second
  of the day. The library represents the ordinals 1 to 3652059 (9999-12-31).
\<close>

record datetime =
  ordinal :: int
  second_of_day :: nat

definition max_ordinal :: int where
  "max_ordinal = 3652059"

definition days_before_month :: "nat \<Rightarrow> int" where
  "days_before_month m = [0, 0, 31, 59, 90, 120, 151, 181, 212, 243, 273, 304, 334] ! m"

definition days_in_month :: "nat \<Rightarrow> int" where
  "days_in_month m = [0, 31, 28, 31, 30, 31, 30, 31, 31, 30, 31, 30, 31] ! m"

text \<open>
  The library's conversion of an ordinal into year, month and day: the 400-, 100-, 4- and
  1-year cycles are taken off in turn; from the day of the year, the month is estimated
  and corrected.
\<close>

definition month_day :: "bool \<Rightarrow> int \<Rightarrow> nat \<times> nat" where
  "month_day leapyear n =
     (let month = nat ((n + 50) div 32);
          preceding = days_before_month month + (if month > 2 \<and> leapyear then 1 else 0)
      in if preceding > n
         then let month' = month - 1;
                  preceding' = preceding
                     - (days_in_month month' + (if month' = 2 \<and> leapyear then 1 else 0))
              in (month', nat (n - preceding' + 1))
         else (month, nat (n - preceding + 1)))"

definition ord2ymd :: "int \<Rightarrow> int \<times> nat \<times> nat" where
  "ord2ymd k =
     (let n0 = k - 1;
          n400 = n0 div 146097; r400 = n0 mod 146097;
          n100 = r400 div 36524; r100 = r400 mod 36524;
          n4 = r100 div 1461; r4 = r100 mod 1461;
          n1 = r4 div 365; n = r4 mod 365;
          year = n400 * 400 + 1 + n100 * 100 + n4 * 4 + n1
      in if n1 = 4 \<or> n100 = 4 then (year - 1, 12, 31)
         else
           let leapyear = (n1 = 3 \<and> (n4 \<noteq> 24 \<or> n100 = 3))
           in case month_day leapyear n of (month, day) \<Rightarrow> (year, month, day))"

text \<open>
  The library's count of the days up to a date (\<open>date.toordinal()\<close>): the days before
  the year, the days before the month, and the day. It says what it means for one date to
  lie a number of days before another.
\<close>

definition is_leap :: "int \<Rightarrow> bool" where
  "is_leap y = (y mod 4 = 0 \<and> (y mod 100 \<noteq> 0 \<or> y mod 400 = 0))"

definition days_before_year :: "int \<Rightarrow> int" where
  "days_before_year y = (let y1 = y - 1 in y1 * 365 + y1 div 4 - y1 div 100 + y1 div 400)"

definition ymd2ord :: "int \<Rightarrow> nat \<Rightarrow> nat \<Rightarrow> int" where
  "ymd2ord y m d =
     days_before_year y + (days_before_month m + (if m > 2 \<and> is_leap y then 1 else 0)) + int d"

text \<open>
  \<open>strftime('%Y-%m-%d')\<close>. Month and day are padded to two digits; the year is written
  as the GNU C library writes \<open>%Y\<close>, without padding, so that a year below 1000 has fewer
  than four digits.
\<close>

definition strftime_ymd :: "int \<Rightarrow> string" where
  "strftime_ymd k =
     (case ord2ymd k of
        (y, m, d) \<Rightarrow> str_int y @ ''-'' @ zfill 2 (str_nat m) @ ''-'' @ zfill 2 (str_nat d))"

text \<open>The shape \<open>YYYY-MM-DD\<close>: four digits, a dash, two digits, a dash, two digits.\<close>

definition is_iso_date :: "string \<Rightarrow> bool" where
  "is_iso_date s =
     (length s = 10 \<and> list_all isdigit (take 4 s) \<and> s ! 4 = CHR ''-''
      \<and> list_all isdigit (take 2 (drop 5 s)) \<and> s ! 7 = CHR ''-''
      \<and> list_all isdigit (drop 8 s))"

text \<open>\<open>strftime('%Y-%m-%d %H:%M:%S')\<close>.\<close>

definition strftime_full :: "datetime \<Rightarrow> string" where
  "strftime_full t =
     strftime_ymd (ordinal t) @ '' ''
       @ zfill 2 (str_nat (second_of_day t div 3600)) @ '':''
       @ zfill 2 (str_nat (second_of_day t div 60 mod 60)) @ '':''
       @ zfill 2 (str_nat (second_of_day t mod 60))"

text \<open>\<open>timedelta(days=n)\<close> raises beyond 999999999 days.\<close>

definition timedelta_days :: "int \<Rightarrow> exn + int" where
  "timedelta_days n =
     (if \<bar>n\<bar> > 999999999
      then Inl (Exn OverflowError ''days out of range'')
      else Inr n)"

text \<open>\<open>t - delta\<close> raises when the result is not a representable date.\<close>

definition datetime_sub :: "datetime \<Rightarrow> int \<Rightarrow> exn + datetime" where
  "datetime_sub t n =
     (let k = ordinal t - n
      in if 1 \<le> k \<and> k \<le> max_ordinal
         then Inr (t\<lparr>ordinal := k\<rparr>)
         else Inl (Exn OverflowError ''date value out of range''))"

subsection \<open>The outside world and the program state\<close>

record request =
  url :: string
  params :: "(string \<times> string) list"

text \<open>
  One element of the \<open>results\<close> array of the aggregates endpoint: the keys \<open>t\<close>
  (milliseconds since the epoch), \<open>o\<close>, \<open>h\<close>, \<open>l\<close>, \<open>c\<close> and \<open>v\<close>. Prices and volume are
  JSON numbers, held by pandas as \<open>float64\<close>; the type \<open>'p\<close> stands for such a number
  and the float operations the script applies to it are parameters of the world below.
\<close>

record 'p raw_bar =
  bar_t :: int
  bar_o :: 'p
  bar_h :: 'p
  bar_l :: 'p
  bar_c :: 'p
  bar_v :: 'p

text \<open>
  A JSON value as \<open>response.json()\<close> returns it: \<open>None\<close>, a \<open>bool\<close>, an \<open>int\<close>, a
  \<open>float\<close>, a \<open>str\<close>, a \<open>list\<close> or a \<open>dict\<close>. Of a \<open>dict\<close> the script reads the
  key \<open>results\<close> only: the model keeps what that key holds, nothing (the key is absent)
  or an array of bars. A \<open>dict\<close> with another kind of value under \<open>results\<close> is
  outside the model.
\<close>

datatype 'p json =
    Null
  | Boolean bool
  | Integer int
  | Float 'p
  | Str string
  | Array "'p json list"
  | Object "'p raw_bar list option"

text \<open>The body of a response: not JSON at all, or a JSON value.\<close>

datatype 'p body = NotJson | Json "'p json"

record 'p response =
  status_code :: int
  resp_text :: string
  resp_json :: "'p body"

text \<open>A row of the table \<open>get_stock_data\<close> returns; the fields are its columns.\<close>

record 'p row =
  col_date :: int
  col_date_str :: string
  col_open :: 'p
  col_high :: 'p
  col_low :: 'p
  col_close :: 'p
  col_volume :: 'p

text \<open>The calls on \<open>matplotlib.pyplot\<close>, with the arguments that carry data.\<close>

datatype 'p plt_call =
    Figure
  | Plot "int list" "'p list"
  | FillBetween "int list" "'p list" "'p list"
  | Title string
  | XLabel string
  | YLabel string
  | Grid
  | Legend
  | MajorFormatter string
  | MajorLocator int
  | XTicks
  | YLim 'p 'p
  | Annotate string int 'p
  | TightLayout
  | Savefig string
  | Show

datatype 'p file_content = TextFile "string list" | Png "'p plt_call list"

text \<open>
  The state: the lines printed, the input lines not yet read, the number of clock
  readings taken, the requests sent, the files written by this run (name and content, in
  the order of creation) and the plotting calls made on the current figure.
\<close>

record 'p state =
  console :: "string list"
  stdin :: "string list"
  ticks :: nat
  requests :: "request list"
  files :: "(string \<times> 'p file_content) list"
  chart :: "'p plt_call list"

text \<open>
  The world: what the environment answers. \<open>clock k\<close> is the reading of the \<open>k\<close>-th call
  of \<open>datetime.now()\<close>; the \<open>_raises\<close> fields say which library call fails and how.
  \<open>unicode_upper\<close> is the library's upper-case mapping of a character beyond ASCII, which
  may give several characters. The last seven fields are the \<open>float64\<close> operations:
  \<open>Series.round(2)\<close> on a cell, \<open>str\<close>, the format \<open>.2f\<close>, \<open>Series.min\<close>,
  \<open>Series.max\<close> and the two scalings of the axis limits.
\<close>

record 'p world =
  getenv :: "string \<Rightarrow> string option"
  stdin_lines :: "string list"
  clock :: "nat \<Rightarrow> datetime"
  http_get :: "request \<Rightarrow> exn + 'p response"
  open_raises :: "string \<Rightarrow> exn option"
  write_raises :: "string \<Rightarrow> nat \<Rightarrow> exn option"
  close_raises :: "string \<Rightarrow> exn option"
  plt_raises :: "'p plt_call \<Rightarrow> exn option"
  unicode_upper :: "char \<Rightarrow> string"
  round2 :: "'p \<Rightarrow> 'p"
  str_float :: "'p \<Rightarrow> string"
  format_2f :: "'p \<Rightarrow> string"
  series_min :: "'p list \<Rightarrow> 'p"
  series_max :: "'p list \<Rightarrow> 'p"
  times_0995 :: "'p \<Rightarrow> 'p"
  times_1005 :: "'p \<Rightarrow> 'p"

definition initial :: "'p world \<Rightarrow> 'p state" where
  "initial w = \<lparr>console = [], stdin = stdin_lines w, ticks = 0, requests = [],
                files = [], chart = []\<rparr>"

subsection \<open>Sequencing, raising and catching\<close>

type_synonym ('a, 'p) io = "'p state \<Rightarrow> (exn + 'a) \<times> 'p state"

definition return_io :: "'a \<Rightarrow> ('a, 'p) io" where
  "return_io x s = (Inr x, s)"

definition lift_io :: "exn + 'a \<Rightarrow> ('a, 'p) io" where
  "lift_io r s = (r, s)"

definition bind_io :: "('a, 'p) io \<Rightarrow> ('a \<Rightarrow> ('b, 'p) io) \<Rightarrow> ('b, 'p) io" where
  "bind_io m f s = (case m s of (Inl e, s') \<Rightarrow> (Inl e, s') | (Inr x, s') \<Rightarrow> f x s')"

fun seq_io :: "(unit, 'p) io list \<Rightarrow> (unit, 'p) io" where
  "seq_io [] s = (Inr (), s)"
| "seq_io (m # ms) s = (case m s of (Inl e, s') \<Rightarrow> (Inl e, s') | (Inr _, s') \<Rightarrow> seq_io ms s')"

text \<open>\<open>try: body  except Exception as e: handler(e)\<close>.\<close>

definition try_except :: "(unit, 'p) io \<Rightarrow> (exn \<Rightarrow> (unit, 'p) io) \<Rightarrow> (unit, 'p) io" where
  "try_except body handler s =
     (case body s of (Inl e, s') \<Rightarrow> handler e s' | (Inr x, s') \<Rightarrow> (Inr x, s'))"

subsection \<open>Library calls with effects\<close>

definition print :: "string \<Rightarrow> (unit, 'p) io" where
  "print line s = (Inr (), s\<lparr>console := console s @ [line]\<rparr>)"

text \<open>\<open>input(prompt)\<close> writes the prompt, then reads a line or raises at end of input.\<close>

definition input :: "string \<Rightarrow> (string, 'p) io" where
  "input prompt s =
     (case stdin s of
        [] \<Rightarrow> (Inl (Exn EOFError ''EOF when reading a line''),
               s\<lparr>console := console s @ [prompt]\<rparr>)
      | line # rest \<Rightarrow> (Inr line, s\<lparr>console := console s @ [prompt], stdin := rest\<rparr>))"

definition now :: "'p world \<Rightarrow> (datetime, 'p) io" where
  "now w s = (Inr (clock w (ticks s)), s\<lparr>ticks := Suc (ticks s)\<rparr>)"

definition requests_get :: "'p world \<Rightarrow> request \<Rightarrow> ('p response, 'p) io" where
  "requests_get w req s = (http_get w req, s\<lparr>requests := requests s @ [req]\<rparr>)"

text \<open>
  \<open>str.upper()\<close> maps every character by itself: an ASCII character to its upper-case
  form, a character beyond ASCII to what the library's table gives.
\<close>

definition upper :: "'p world \<Rightarrow> string \<Rightarrow> string" where
  "upper w s = concat (map (\<lambda>c. if is_ascii c then [upper_char c] else unicode_upper w c) s)"

definition response_json :: "'p response \<Rightarrow> exn + 'p json" where
  "response_json r =
     (case resp_json r of
        NotJson \<Rightarrow> Inl (Exn JSONDecodeError ''Expecting value'')
      | Json data \<Rightarrow> Inr data)"

definition plt :: "'p world \<Rightarrow> 'p plt_call \<Rightarrow> (unit, 'p) io" where
  "plt w c s =
     (case plt_raises w c of
        Some e \<Rightarrow> (Inl e, s)
      | None \<Rightarrow>
          (Inr (),
           (case c of
              Savefig filename \<Rightarrow> s\<lparr>files := AList.update filename (Png (chart s)) (files s)\<rparr>
            | _ \<Rightarrow> s)\<lparr>chart := chart s @ [c]\<rparr>))"

definition written :: "'p state \<Rightarrow> string \<Rightarrow> string list" where
  "written s filename = (case map_of (files s) filename of Some (TextFile cs) \<Rightarrow> cs | _ \<Rightarrow> [])"

text \<open>\<open>open(filename, 'w')\<close> creates or empties the file.\<close>

definition open_w :: "'p world \<Rightarrow> string \<Rightarrow> (unit, 'p) io" where
  "open_w w filename s =
     (case open_raises w filename of
        Some e \<Rightarrow> (Inl e, s)
      | None \<Rightarrow> (Inr (), s\<lparr>files := AList.update filename (TextFile []) (files s)\<rparr>))"

definition f_write :: "'p world \<Rightarrow> string \<Rightarrow> string \<Rightarrow> (unit, 'p) io" where
  "f_write w filename chunk s =
     (case write_raises w filename (length (written s filename)) of
        Some e \<Rightarrow> (Inl e, s)
      | None \<Rightarrow>
          (Inr (),
           s\<lparr>files := AList.update filename (TextFile (written s filename @ [chunk])) (files s)\<rparr>))"

text \<open>
  \<open>with open(filename, 'w') as f: body\<close>. The file is closed however the body ends; an
  exception of the close replaces that of the body.
\<close>

definition with_open :: "'p world \<Rightarrow> string \<Rightarrow> (unit, 'p) io \<Rightarrow> (unit, 'p) io" where
  "with_open w filename body s =
     (case open_w w filename s of
        (Inl e, s') \<Rightarrow> (Inl e, s')
      | (Inr _, s') \<Rightarrow>
          (case body s' of
             (r, s'') \<Rightarrow>
               (case close_raises w filename of
                  Some e \<Rightarrow> (Inl e, s'')
                | None \<Rightarrow> (r, s''))))"

subsection \<open>\<open>get_stock_data\<close>\<close>

definition int_of_str :: "string \<Rightarrow> exn + int" where
  "int_of_str s = (case py_int s of None \<Rightarrow> Inl (int_error s) | Some n \<Rightarrow> Inr n)"

text \<open>\<open>sub in s\<close> on two strings: \<open>sub\<close> occurs in \<open>s\<close>.\<close>

fun occurs_in :: "string \<Rightarrow> string \<Rightarrow> bool" where
  "occurs_in sub [] = (sub = [])"
| "occurs_in sub (c # cs) = (take (length sub) (c # cs) = sub \<or> occurs_in sub cs)"

text \<open>
  \<open>'results' in data\<close> (line 30): a key of a \<open>dict\<close>, an element of a \<open>list\<close>, a part
  of a \<open>str\<close>; \<open>None\<close>, a \<open>bool\<close> and a number are no containers.
\<close>

definition not_iterable :: "string \<Rightarrow> exn" where
  "not_iterable type_name =
     Exn TypeError (''argument of type '' @ [CHR 0x27] @ type_name @ [CHR 0x27]
                      @ '' is not iterable'')"

definition contains_results :: "'p json \<Rightarrow> exn + bool" where
  "contains_results data =
     (case data of
        Null \<Rightarrow> Inl (not_iterable ''NoneType'')
      | Boolean _ \<Rightarrow> Inl (not_iterable ''bool'')
      | Integer _ \<Rightarrow> Inl (not_iterable ''int'')
      | Float _ \<Rightarrow> Inl (not_iterable ''float'')
      | Str s \<Rightarrow> Inr (occurs_in ''results'' s)
      | Array xs \<Rightarrow> Inr (Str ''results'' \<in> set xs)
      | Object res \<Rightarrow> Inr (res \<noteq> None))"

text \<open>\<open>data['results']\<close> (lines 30 and 32).\<close>

definition not_subscriptable :: "string \<Rightarrow> exn" where
  "not_subscriptable type_name =
     Exn TypeError ([CHR 0x27] @ type_name @ [CHR 0x27] @ '' object is not subscriptable'')"

definition results_of :: "'p json \<Rightarrow> exn + 'p raw_bar list" where
  "results_of data =
     (case data of
        Null \<Rightarrow> Inl (not_subscriptable ''NoneType'')
      | Boolean _ \<Rightarrow> Inl (not_subscriptable ''bool'')
      | Integer _ \<Rightarrow> Inl (not_subscriptable ''int'')
      | Float _ \<Rightarrow> Inl (not_subscriptable ''float'')
      | Str _ \<Rightarrow>
          Inl (Exn TypeError (''string indices must be integers, not '' @ [CHR 0x27] @ ''str''
                                @ [CHR 0x27]))
      | Array _ \<Rightarrow> Inl (Exn TypeError ''list indices must be integers or slices, not str'')
      | Object None \<Rightarrow> Inl (Exn KeyError ([CHR 0x27] @ ''results'' @ [CHR 0x27]))
      | Object (Some bars) \<Rightarrow> Inr bars)"

text \<open>The truth value of \<open>data['results']\<close>: an array is true when it is not empty.\<close>

definition results_truthy :: "'p json \<Rightarrow> exn + bool" where
  "results_truthy data =
     (case results_of data of Inl e \<Rightarrow> Inl e | Inr bars \<Rightarrow> Inr (bars \<noteq> []))"

text \<open>
  \<open>pd.to_datetime(df['t'], unit='ms')\<close>: a time stamp counts nanoseconds in 64 bits, so
  the column converts only when every entry lies within these milliseconds.
\<close>

definition in_timestamp_bounds :: "int \<Rightarrow> bool" where
  "in_timestamp_bounds ms = (- 9223372036854 \<le> ms \<and> ms \<le> 9223372036854)"

text \<open>\<open>dt.strftime('%Y-%m-%d')\<close> of a time stamp; 1970-01-01 has the ordinal 719163.\<close>

definition date_str_of_ms :: "int \<Rightarrow> string" where
  "date_str_of_ms ms = strftime_ymd (719163 + ms div 86400000)"

text \<open>
  One row of \<open>final_df\<close>: the date and its text from \<open>t\<close>, the renamed columns, the four
  prices rounded.
\<close>

definition row_of_bar :: "'p world \<Rightarrow> 'p raw_bar \<Rightarrow> 'p row" where
  "row_of_bar w b =
     \<lparr>col_date = bar_t b, col_date_str = date_str_of_ms (bar_t b),
      col_open = round2 w (bar_o b), col_high = round2 w (bar_h b),
      col_low = round2 w (bar_l b), col_close = round2 w (bar_c b),
      col_volume = bar_v b\<rparr>"

text \<open>Lines 32 to 52: the table has one row per element of \<open>results\<close>, in its order.\<close>

definition final_df :: "'p world \<Rightarrow> 'p raw_bar list \<Rightarrow> exn + 'p row list" where
  "final_df w results =
     (if list_all (\<lambda>b. in_timestamp_bounds (bar_t b)) results
      then Inr (map (row_of_bar w) results)
      else Inl (Exn OutOfBoundsDatetime ''cannot convert input with unit ms''))"

definition api_url :: "string \<Rightarrow> string \<Rightarrow> string \<Rightarrow> string" where
  "api_url ticker start_date end_date =
     ''https://api.polygon.io/v2/aggs/ticker/'' @ ticker
       @ ''/range/1/day/'' @ start_date @ ''/'' @ end_date"

definition api_params :: "string \<Rightarrow> (string \<times> string) list" where
  "api_params api_key = [(''adjusted'', ''true''), (''sort'', ''asc''), (''apikey'', api_key)]"

definition get_stock_data ::
  "'p world \<Rightarrow> string \<Rightarrow> string \<Rightarrow> string \<Rightarrow> ('p row list option, 'p) io" where
  "get_stock_data w api_key ticker days_tracked =
     bind_io (now w) (\<lambda>t1.
     let end_date = strftime_ymd (ordinal t1) in
     bind_io (now w) (\<lambda>t2.
     bind_io (lift_io (int_of_str days_tracked)) (\<lambda>n.
     bind_io (lift_io (timedelta_days n)) (\<lambda>delta.
     bind_io (lift_io (datetime_sub t2 delta)) (\<lambda>t0.
     let start_date = strftime_ymd (ordinal t0);
         url = api_url ticker start_date end_date;
         params = api_params api_key
     in
     bind_io (requests_get w \<lparr>url = url, params = params\<rparr>) (\<lambda>response.
       if status_code response = 200 then
         bind_io (lift_io (response_json response)) (\<lambda>data.
         bind_io (lift_io (contains_results data)) (\<lambda>present.
         bind_io (lift_io (if present then results_truthy data else Inr False)) (\<lambda>nonempty.
           if nonempty then
             bind_io (lift_io (results_of data)) (\<lambda>results.
             bind_io (lift_io (final_df w results)) (\<lambda>df. return_io (Some df)))
           else
             bind_io (print ''No data found in API response'') (\<lambda>_. return_io None))))
       else
         bind_io (print (''API Error: '' @ str_int (status_code response) @ '' - ''
                           @ resp_text response))
           (\<lambda>_. return_io None)))))))"

subsection \<open>\<open>create_price_graph\<close>\<close>

text \<open>\<open>df[col].iloc[-1]\<close> raises on an empty column.\<close>

definition iloc_last :: "'a list \<Rightarrow> exn + 'a" where
  "iloc_last xs =
     (if xs = [] then Inl (Exn IndexError ''single positional indexer is out-of-bounds'')
      else Inr (last xs))"

definition default_chart_filename :: string where
  "default_chart_filename = ''stock_chart.png''"

text \<open>The body of the \<open>try\<close> block (lines 69 to 113).\<close>

definition draw_chart ::
  "'p world \<Rightarrow> string \<Rightarrow> string \<Rightarrow> 'p row list \<Rightarrow> string \<Rightarrow> (unit, 'p) io" where
  "draw_chart w stock days_tracked rows filename =
     bind_io (seq_io
       [plt w Figure,
        plt w (Plot (map col_date rows) (map col_close rows)),
        plt w (FillBetween (map col_date rows) (map col_low rows) (map col_high rows)),
        plt w (Title (stock @ '' Stock Price - Last '' @ days_tracked @ '' Days'')),
        plt w (XLabel ''Date''),
        plt w (YLabel ''Price ($)''),
        plt w Grid,
        plt w Legend]) (\<lambda>_.
     bind_io (lift_io (int_of_str days_tracked)) (\<lambda>days.
     let x_int = max 1 (days div 15) in
     bind_io (seq_io
       [plt w (MajorFormatter ''%m/%d''),
        plt w (MajorLocator x_int),
        plt w XTicks,
        plt w (YLim (times_0995 w (series_min w (map col_low rows)))
                    (times_1005 w (series_max w (map col_high rows))))]) (\<lambda>_.
     bind_io (lift_io (iloc_last (map col_close rows))) (\<lambda>latest_price.
     bind_io (lift_io (iloc_last (map col_date rows))) (\<lambda>latest_date.
     seq_io
       [plt w (Annotate (''Latest: $'' @ format_2f w latest_price) latest_date latest_price),
        plt w TightLayout,
        plt w (Savefig filename),
        plt w Show])))))"

definition create_price_graph ::
  "'p world \<Rightarrow> string \<Rightarrow> string \<Rightarrow> 'p row list option \<Rightarrow> string \<Rightarrow> (unit, 'p) io" where
  "create_price_graph w stock days_tracked df filename =
     (case df of
        None \<Rightarrow> print ''No data to graph''
      | Some rows \<Rightarrow>
          try_except (draw_chart w stock days_tracked rows filename)
            (\<lambda>e. print (''Error creating graph: '' @ message e)))"

subsection \<open>\<open>save_to_text_file\<close>\<close>

definition default_text_filename :: string where
  "default_text_filename = ''stock_data.txt''"

definition newline :: string where
  "newline = [CHR 0x0A]"

definition column_headers :: string where
  "column_headers =
     ljust 12 ''Date'' @ '' '' @ ljust 8 ''Open'' @ '' '' @ ljust 8 ''High'' @ '' ''
       @ ljust 8 ''Low'' @ '' '' @ ljust 8 ''Close'' @ '' '' @ ljust 12 ''Volume'' @ newline"

text \<open>The text of one data row (lines 136 to 141).\<close>

definition row_line :: "'p world \<Rightarrow> 'p row \<Rightarrow> string" where
  "row_line w r =
     ljust 12 (col_date_str r) @ '' ''
       @ ljust 8 (str_float w (col_open r)) @ '' ''
       @ ljust 8 (str_float w (col_high r)) @ '' ''
       @ ljust 8 (str_float w (col_low r)) @ '' ''
       @ ljust 8 (str_float w (col_close r)) @ '' ''
       @ ljust 12 (str_float w (col_volume r)) @ newline"

text \<open>The header block written before the rows (lines 126 to 132).\<close>

definition header_writes :: "'p world \<Rightarrow> string \<Rightarrow> (unit, 'p) io list" where
  "header_writes w filename =
     [f_write w filename (''Stock Data'' @ newline),
      f_write w filename (replicate 50 CHR ''='' @ newline),
      bind_io (now w) (\<lambda>t.
        f_write w filename (''Data retrieved on: '' @ strftime_full t @ newline @ newline)),
      f_write w filename column_headers,
      f_write w filename (replicate 60 CHR ''-'' @ newline)]"

text \<open>The body of the \<open>try\<close> block (lines 124 to 141).\<close>

definition write_table :: "'p world \<Rightarrow> 'p row list \<Rightarrow> string \<Rightarrow> (unit, 'p) io" where
  "write_table w rows filename =
     with_open w filename
       (seq_io (header_writes w filename
                  @ map (\<lambda>r. f_write w filename (row_line w r)) rows))"

definition save_to_text_file ::
  "'p world \<Rightarrow> 'p row list option \<Rightarrow> string \<Rightarrow> (unit, 'p) io" where
  "save_to_text_file w df filename =
     (case df of
        None \<Rightarrow> print ''No data to save''
      | Some rows \<Rightarrow>
          try_except (write_table w rows filename)
            (\<lambda>e. print (''Error saving file: '' @ message e)))"

subsection \<open>\<open>get_api_key\<close> and the main program\<close>

definition get_api_key :: "'p world \<Rightarrow> (string option, 'p) io" where
  "get_api_key w =
     (case getenv w ''POLYGON_API_KEY'' of
        Some (c # cs) \<Rightarrow> return_io (Some (c # cs))
      | _ \<Rightarrow>
          bind_io (input ''Enter your Polygon.io API key: '') (\<lambda>line.
          let api_key = strip line in
          if api_key = []
          then bind_io (print ''API key is required to continue'') (\<lambda>_. return_io None)
          else return_io (Some api_key)))"

text \<open>How the script ends: it runs to its last line, or leaves through \<open>exit()\<close>.\<close>

datatype ending = Finished | Exited

text \<open>The fetch and what follows it (lines 176 to 184).\<close>

definition fetch_and_report :: "'p world \<Rightarrow> string \<Rightarrow> string \<Rightarrow> string \<Rightarrow> (ending, 'p) io" where
  "fetch_and_report w API_KEY stock days_tracked =
     bind_io (get_stock_data w API_KEY stock days_tracked) (\<lambda>stock_data.
     case stock_data of
       Some df \<Rightarrow>
         bind_io (print (newline @ ''Successfully retrieved data for '' @ stock)) (\<lambda>_.
         bind_io (save_to_text_file w (Some df) default_text_filename) (\<lambda>_.
         bind_io (create_price_graph w stock days_tracked (Some df) default_chart_filename)
           (\<lambda>_. return_io Finished)))
     | None \<Rightarrow>
         bind_io (print ''Failed to retrieve data'') (\<lambda>_. return_io Finished))"

definition main :: "'p world \<Rightarrow> (ending, 'p) io" where
  "main w =
     bind_io (print (''=== Stock Price Tracker ==='' @ newline)) (\<lambda>_.
     bind_io (get_api_key w) (\<lambda>API_KEY.
     case API_KEY of
       Some (c # cs) \<Rightarrow>
         bind_io (input (newline @ ''Enter a Ticker to Track: '')) (\<lambda>line.
         let stock = upper w line in
         bind_io (input ''Enter Number of Days: '') (\<lambda>days_tracked.
         fetch_and_report w (c # cs) stock days_tracked))
     | _ \<Rightarrow> bind_io (print ''Exiting...'') (\<lambda>_. return_io Exited)))"

text \<open>One run of the script: the main program from the initial state.\<close>

definition run :: "'p world \<Rightarrow> (exn + ending) \<times> 'p state" where
  "run w = main w (initial w)"

subsection \<open>Sample worlds\<close>

text \<open>
  A world for concrete runs: the key is in the environment, the user types a ticker and
  a number of days, the clock reads 2026-11-03 09:30:00, the endpoint answers with two
  bars in ascending order, and no library call fails. Numbers are whole in this sample.
\<close>

definition sample_bars :: "int raw_bar list" where
  "sample_bars =
     [\<lparr>bar_t = 1793318400000, bar_o = 101, bar_h = 103, bar_l = 100, bar_c = 102, bar_v = 5000\<rparr>,
      \<lparr>bar_t = 1793577600000, bar_o = 102, bar_h = 105, bar_l = 101, bar_c = 104, bar_v = 7000\<rparr>]"

definition sample_response :: "int response" where
  "sample_response = \<lparr>status_code = 200, resp_text = ''{...}'', resp_json = Json (Object (Some sample_bars))\<rparr>"

text \<open>
  The case mapping of the sample: the lower-case letters of Latin-1 from \<open>0xE0\<close> to
  \<open>0xFE\<close> (the division sign \<open>0xF7\<close> apart) have their capital 32 below, the sharp s
  \<open>0xDF\<close> becomes two letters, and the other characters stay.
\<close>

definition latin1_upper :: "char \<Rightarrow> string" where
  "latin1_upper c =
     (if c = CHR 0xDF then ''SS''
      else if 224 \<le> (of_char c :: nat) \<and> (of_char c :: nat) \<le> 254 \<and> c \<noteq> CHR 0xF7
        then [char_of ((of_char c :: nat) - 32)]
      else [c])"

definition sample_world :: "int world" where
  "sample_world =
     \<lparr>getenv = (\<lambda>name. if name = ''POLYGON_API_KEY'' then Some ''KEY'' else None),
      stdin_lines = [''aapl'', ''30''],
      clock = (\<lambda>_. \<lparr>ordinal = 739923, second_of_day = 34200\<rparr>),
      http_get = (\<lambda>_. Inr sample_response),
      open_raises = (\<lambda>_. None),
      write_raises = (\<lambda>_ _. None),
      close_raises = (\<lambda>_. None),
      plt_raises = (\<lambda>_. None),
      unicode_upper = latin1_upper,
      round2 = (\<lambda>x. x),
      str_float = str_int,
      format_2f = (\<lambda>x. str_int x @ ''.00''),
      series_min = (\<lambda>xs. fold min xs (hd xs)),
      series_max = (\<lambda>xs. fold max xs (hd xs)),
      times_0995 = (\<lambda>x. x),
      times_1005 = (\<lambda>x. x)\<rparr>"

definition sample_rows :: "int row list" where
  "sample_rows = map (row_of_bar sample_world) sample_bars"

text \<open>The third write to a file fails.\<close>

definition full_disk_world :: "int world" where
  "full_disk_world =
     sample_world\<lparr>write_raises :=
       (\<lambda>_ k. if k = 2 then Some (Exn OSError ''No space left on device'') else None)\<rparr>"

text \<open>The chart cannot be shown.\<close>

definition no_display_world :: "int world" where
  "no_display_world =
     sample_world\<lparr>plt_raises :=
       (\<lambda>c. if c = Show then Some (Exn RuntimeError ''Invalid DISPLAY variable'') else None)\<rparr>"

text \<open>No key in the environment; the user answers the prompt with blanks, or with a key.\<close>

definition no_key_world :: "int world" where
  "no_key_world =
     sample_world\<lparr>getenv := (\<lambda>_. None), stdin_lines := [''   '', ''aapl'', ''30'']\<rparr>"

definition typed_key_world :: "int world" where
  "typed_key_world =
     sample_world\<lparr>getenv := (\<lambda>_. None), stdin_lines := ['' abc123 '', ''aapl'', ''30'']\<rparr>"

text \<open>The endpoint refuses the request; the endpoint has no bars; the network is down.\<close>

definition rate_limited_world :: "int world" where
  "rate_limited_world =
     sample_world\<lparr>http_get :=
       (\<lambda>_. Inr \<lparr>status_code = 429, resp_text = ''Too Many Requests'', resp_json = NotJson\<rparr>)\<rparr>"

definition no_bars_world :: "int world" where
  "no_bars_world =
     sample_world\<lparr>http_get :=
       (\<lambda>_. Inr \<lparr>status_code = 200, resp_text = ''{}'', resp_json = Json (Object None)\<rparr>)\<rparr>"

definition offline_world :: "int world" where
  "offline_world =
     sample_world\<lparr>http_get := (\<lambda>_. Inl (Exn ConnectionError ''Max retries exceeded''))\<rparr>"

text \<open>The endpoint answers with status 200 and the JSON value \<open>null\<close>.\<close>

definition null_body_world :: "int world" where
  "null_body_world =
     sample_world\<lparr>http_get :=
       (\<lambda>_. Inr \<lparr>status_code = 200, resp_text = ''null'', resp_json = Json Null\<rparr>)\<rparr>"

text \<open>The user types letters, or a million, for the number of days.\<close>

definition letters_world :: "int world" where
  "letters_world = sample_world\<lparr>stdin_lines := [''aapl'', ''abc'']\<rparr>"

definition million_days_world :: "int world" where
  "million_days_world = sample_world\<lparr>stdin_lines := [''aapl'', ''1000000'']\<rparr>"

section \<open>Properties\<close>

lemmas io_defs = bind_io_def return_io_def lift_io_def try_except_def print_def input_def now_def
  requests_get_def plt_def open_w_def f_write_def with_open_def written_def

subsection \<open>Catching\<close>

lemma try_except_print:
  "fst (try_except body (\<lambda>e. print (f e)) s) = Inr ()"
  by (auto simp: try_except_def print_def split: prod.splits sum.splits)

lemma try_except_caught:
  "body s = (Inl e, s') \<Longrightarrow>
   try_except body (\<lambda>e. print (f e)) s = (Inr (), s'\<lparr>console := console s' @ [f e]\<rparr>)"
  by (simp add: try_except_def print_def)

subsection \<open>The text report\<close>

text \<open>
  Claim C7. \<open>save_to_text_file\<close> never raises, whatever the table, the file name, the state
  and the failures of the file operations. Given no table it prints a line and changes
  nothing else, so no file is created. When opening, writing or closing the file raises,
  the exception is caught, a line naming it is printed, and the function returns.
\<close>

theorem save_to_text_file_never_raises:
  "fst (save_to_text_file w df filename s) = Inr ()
   \<and> save_to_text_file w None filename s
       = (Inr (), s\<lparr>console := console s @ [''No data to save'']\<rparr>)
   \<and> (\<forall>rows e s'. write_table w rows filename s = (Inl e, s') \<longrightarrow>
         save_to_text_file w (Some rows) filename s
           = (Inr (), s'\<lparr>console := console s' @ [''Error saving file: '' @ message e]\<rparr>))"
  by (cases df) (simp_all add: save_to_text_file_def try_except_print try_except_caught print_def)

theorem save_to_text_file_never_raises_witness:
  "write_table full_disk_world sample_rows ''stock_data.txt'' (initial full_disk_world)
     = (Inl (Exn OSError ''No space left on device''),
        (initial full_disk_world)
          \<lparr>ticks := 1,
           files := [(''stock_data.txt'',
                      TextFile [''Stock Data'' @ newline, replicate 50 CHR ''='' @ newline])]\<rparr>)
   \<and> save_to_text_file full_disk_world (Some sample_rows) ''stock_data.txt''
         (initial full_disk_world)
     = (Inr (),
        (initial full_disk_world)
          \<lparr>console := [''Error saving file: No space left on device''],
           ticks := 1,
           files := [(''stock_data.txt'',
                      TextFile [''Stock Data'' @ newline, replicate 50 CHR ''='' @ newline])]\<rparr>)"
proof -
  let ?e = "Exn OSError ''No space left on device''"
  let ?s' = "(initial full_disk_world)
          \<lparr>ticks := 1,
           files := [(''stock_data.txt'',
                      TextFile [''Stock Data'' @ newline, replicate 50 CHR ''='' @ newline])]\<rparr>"
  have failed:
    "write_table full_disk_world sample_rows ''stock_data.txt'' (initial full_disk_world)
       = (Inl ?e, ?s')"
    by (simp add: write_table_def header_writes_def io_defs full_disk_world_def sample_world_def
        initial_def)
  have "save_to_text_file full_disk_world (Some sample_rows) ''stock_data.txt''
          (initial full_disk_world)
        = (Inr (), ?s'\<lparr>console := console ?s' @ [''Error saving file: '' @ message ?e]\<rparr>)"
    using save_to_text_file_never_raises
      [of full_disk_world "Some sample_rows" "''stock_data.txt''" "initial full_disk_world"] failed
    by blast
  then show ?thesis using failed by (simp add: initial_def)
qed

subsection \<open>The chart\<close>

lemma bind_ioE:
  assumes "bind_io m f s = (r, s'')"
  obtains (raised) e where "m s = (Inl e, s'')" and "r = Inl e"
        | (returned) x s' where "m s = (Inr x, s')" and "f x s' = (r, s'')"
  using assms by (auto simp: bind_io_def split: prod.splits sum.splits)

lemma lift_io_eq: "lift_io v s = (r, s') \<longleftrightarrow> v = r \<and> s' = s"
  by (auto simp: lift_io_def)

lemma plt_chart:
  "plt w c s = (r, s') \<Longrightarrow>
   (r = Inr () \<and> chart s' = chart s @ [c]) \<or> ((\<exists>e. r = Inl e) \<and> s' = s)"
  by (auto simp: plt_def split: option.splits)

lemma seq_plt_chart:
  "seq_io (map (plt w) cs) s = (r, s') \<Longrightarrow>
   \<exists>new. chart s' = chart s @ new \<and> set new \<subseteq> set cs \<and> (r = Inr () \<longrightarrow> new = cs)"
proof (induction cs arbitrary: s)
  case Nil
  then show ?case by simp
next
  case (Cons c cs)
  show ?case
  proof (cases "plt w c s")
    case (Pair r1 s1)
    show ?thesis
    proof (cases r1)
      case (Inl e)
      with Pair Cons.prems plt_chart[OF Pair] show ?thesis by auto
    next
      case (Inr u)
      with Pair Cons.prems have rest: "seq_io (map (plt w) cs) s1 = (r, s')" by simp
      from Inr Pair plt_chart[OF Pair] have "chart s1 = chart s @ [c]" by auto
      with Cons.IH[OF rest] show ?thesis by auto
    qed
  qed
qed

lemma iloc_last_map: "iloc_last (map f rows) = Inr x \<longleftrightarrow> rows \<noteq> [] \<and> x = f (last rows)"
  by (auto simp: iloc_last_def last_map)

lemma draw_chart_maps:
  "draw_chart w stock days_tracked rows filename =
     bind_io (seq_io (map (plt w)
       [Figure,
        Plot (map col_date rows) (map col_close rows),
        FillBetween (map col_date rows) (map col_low rows) (map col_high rows),
        Title (stock @ '' Stock Price - Last '' @ days_tracked @ '' Days''),
        XLabel ''Date'', YLabel ''Price ($)'', Grid, Legend])) (\<lambda>_.
     bind_io (lift_io (int_of_str days_tracked)) (\<lambda>days.
     bind_io (seq_io (map (plt w)
       [MajorFormatter ''%m/%d'', MajorLocator (max 1 (days div 15)), XTicks,
        YLim (times_0995 w (series_min w (map col_low rows)))
             (times_1005 w (series_max w (map col_high rows)))])) (\<lambda>_.
     bind_io (lift_io (iloc_last (map col_close rows))) (\<lambda>latest_price.
     bind_io (lift_io (iloc_last (map col_date rows))) (\<lambda>latest_date.
     seq_io (map (plt w)
       [Annotate (''Latest: $'' @ format_2f w latest_price) latest_date latest_price,
        TightLayout, Savefig filename, Show]))))))"
  by (simp add: draw_chart_def Let_def)

lemma draw_chart_annotations:
  assumes "draw_chart w stock days_tracked rows filename s = (r, s')"
  shows "\<exists>new. chart s' = chart s @ new \<and>
           (\<forall>text x y. Annotate text x y \<in> set new \<longrightarrow>
              rows \<noteq> [] \<and> text = ''Latest: $'' @ format_2f w (col_close (last rows))
              \<and> x = col_date (last rows) \<and> y = col_close (last rows))"
  using assms unfolding draw_chart_maps
  apply (elim bind_ioE)
  apply (auto simp: lift_io_eq iloc_last_map simp del: list.map dest!: seq_plt_chart)
  done


lemma seq_plt_no_raise:
  assumes "\<forall>c. plt_raises w c = None" and "seq_io (map (plt w) cs) s = (r, s')"
  shows "r = Inr () \<and> chart s' = chart s @ cs"
  using assms(2) by (induction cs arbitrary: s) (auto simp: plt_def assms(1))

lemma draw_chart_complete:
  assumes "\<forall>c. plt_raises w c = None" and "py_int days_tracked \<noteq> None" and "rows \<noteq> []"
    and "draw_chart w stock days_tracked rows filename s = (r, s')"
  shows "r = Inr () \<and>
         (\<exists>new. chart s' = chart s @ new \<and>
            Annotate (''Latest: $'' @ format_2f w (col_close (last rows)))
              (col_date (last rows)) (col_close (last rows)) \<in> set new)"
  using assms(2-) unfolding draw_chart_maps
  apply (elim bind_ioE)
  apply (auto simp: lift_io_eq iloc_last_def last_map int_of_str_def
         simp del: list.map dest!: seq_plt_no_raise[OF assms(1)] split: option.splits)
  done

lemma create_price_graph_chart:
  "chart (snd (create_price_graph w stock days_tracked (Some rows) filename s))
     = chart (snd (draw_chart w stock days_tracked rows filename s))"
  by (auto simp: create_price_graph_def try_except_def print_def split: prod.splits sum.splits)

text \<open>
  Claim C8. \<open>create_price_graph\<close> never raises, whatever its arguments, the state and the
  failures of the plotting calls. Given no table it prints a line and changes nothing
  else, so no chart file is written. When a step of the drawing raises (a plotting call,
  saving, showing, or the conversion of the number of days), the exception is caught, a
  line naming it is printed, and the function returns.
\<close>

theorem create_price_graph_never_raises:
  "fst (create_price_graph w stock days_tracked df filename s) = Inr ()
   \<and> create_price_graph w stock days_tracked None filename s
       = (Inr (), s\<lparr>console := console s @ [''No data to graph'']\<rparr>)
   \<and> (\<forall>rows e s'. draw_chart w stock days_tracked rows filename s = (Inl e, s') \<longrightarrow>
         create_price_graph w stock days_tracked (Some rows) filename s
           = (Inr (), s'\<lparr>console := console s' @ [''Error creating graph: '' @ message e]\<rparr>))"
  by (cases df)
    (simp_all add: create_price_graph_def try_except_print try_except_caught print_def)

theorem create_price_graph_never_raises_witness:
  "fst (draw_chart no_display_world ''AAPL'' ''30'' sample_rows ''stock_chart.png''
          (initial no_display_world))
     = Inl (Exn RuntimeError ''Invalid DISPLAY variable'')
   \<and> fst (create_price_graph no_display_world ''AAPL'' ''30'' (Some sample_rows)
            ''stock_chart.png'' (initial no_display_world)) = Inr ()
   \<and> console (snd (create_price_graph no_display_world ''AAPL'' ''30'' (Some sample_rows)
                     ''stock_chart.png'' (initial no_display_world)))
     = [''Error creating graph: Invalid DISPLAY variable'']"
proof -
  let ?e = "Exn RuntimeError ''Invalid DISPLAY variable''"
  let ?d = "draw_chart no_display_world ''AAPL'' ''30'' sample_rows ''stock_chart.png''
              (initial no_display_world)"
  have ev: "fst ?d = Inl ?e" "console (snd ?d) = []"
    by (simp_all add: draw_chart_def io_defs no_display_world_def sample_world_def initial_def
        int_of_str_def py_int_def int_strip_def int_isspace_def int_whitespace_def
        unsigned_def isdigit_def int_max_str_digits_def digit_val_def Let_def
        iloc_last_def sample_rows_def sample_bars_def)
  then have failed: "?d = (Inl ?e, snd ?d)"
    by (simp add: prod_eq_iff)
  have "create_price_graph no_display_world ''AAPL'' ''30'' (Some sample_rows)
          ''stock_chart.png'' (initial no_display_world)
        = (Inr (), (snd ?d)\<lparr>console := console (snd ?d) @ [''Error creating graph: '' @ message ?e]\<rparr>)"
    using create_price_graph_never_raises
      [of no_display_world "''AAPL''" "''30''" "Some sample_rows" "''stock_chart.png''"
         "initial no_display_world"] failed
    by blast
  with ev show ?thesis by simp
qed

text \<open>
  Claim C9. For a non-empty table, every annotation \<open>create_price_graph\<close> puts on the chart
  has the text \<open>Latest: $\<close> followed by the close of the last row in the format
  \<open>.2f\<close>, and is anchored at the date and the close of the last row. When no plotting call
  fails and the number of days converts, the annotation is made.
\<close>

theorem annotation_is_latest_close:
  assumes "rows \<noteq> []"
  shows "\<exists>new. chart (snd (create_price_graph w stock days_tracked (Some rows) filename s))
                 = chart s @ new
           \<and> (\<forall>text x y. Annotate text x y \<in> set new \<longrightarrow>
                  text = ''Latest: $'' @ format_2f w (col_close (last rows))
                  \<and> x = col_date (last rows) \<and> y = col_close (last rows))
           \<and> ((\<forall>c. plt_raises w c = None) \<and> py_int days_tracked \<noteq> None \<longrightarrow>
                  Annotate (''Latest: $'' @ format_2f w (col_close (last rows)))
                    (col_date (last rows)) (col_close (last rows)) \<in> set new)"
proof -
  let ?a = "Annotate (''Latest: $'' @ format_2f w (col_close (last rows)))
              (col_date (last rows)) (col_close (last rows))"
  obtain r s' where run: "draw_chart w stock days_tracked rows filename s = (r, s')"
    by (cases "draw_chart w stock days_tracked rows filename s")
  from draw_chart_annotations[OF run] obtain new where
    new: "chart s' = chart s @ new" and
    ann: "\<forall>text x y. Annotate text x y \<in> set new \<longrightarrow>
              rows \<noteq> [] \<and> text = ''Latest: $'' @ format_2f w (col_close (last rows))
              \<and> x = col_date (last rows) \<and> y = col_close (last rows)"
    by blast
  have shown:
    "chart (snd (create_price_graph w stock days_tracked (Some rows) filename s)) = chart s @ new"
    using run new by (simp add: create_price_graph_chart)
  have made: "?a \<in> set new"
    if ok: "(\<forall>c. plt_raises w c = None) \<and> py_int days_tracked \<noteq> None"
  proof -
    from ok assms run obtain new' where "chart s' = chart s @ new'" and "?a \<in> set new'"
      using draw_chart_complete[of w days_tracked rows stock filename s r s'] by blast
    with new show ?thesis by simp
  qed
  from shown ann made show ?thesis by blast
qed

theorem annotation_is_latest_close_witness:
  "sample_rows \<noteq> []
   \<and> Annotate ''Latest: $104.00'' 1793577600000 104
       \<in> set (chart (snd (create_price_graph sample_world ''AAPL'' ''30'' (Some sample_rows)
                             ''stock_chart.png'' (initial sample_world))))"
proof -
  have rows: "sample_rows \<noteq> []"
    by (simp add: sample_rows_def sample_bars_def)
  have ok: "(\<forall>c. plt_raises sample_world c = None) \<and> py_int ''30'' \<noteq> None"
    by (simp add: sample_world_def py_int_def int_strip_def int_isspace_def int_whitespace_def
        unsigned_def isdigit_def int_max_str_digits_def digit_val_def Let_def)
  have latest: "''Latest: $'' @ format_2f sample_world (col_close (last sample_rows))
                  = ''Latest: $104.00''"
    "col_date (last sample_rows) = 1793577600000" "col_close (last sample_rows) = 104"
    by (simp_all add: sample_rows_def sample_bars_def row_of_bar_def sample_world_def
        str_int_def str_nat.simps digit_char_def)
  from annotation_is_latest_close[OF rows, of sample_world "''AAPL''" "''30''"
      "''stock_chart.png''" "initial sample_world"] ok
  obtain new where
    "chart (snd (create_price_graph sample_world ''AAPL'' ''30'' (Some sample_rows)
                   ''stock_chart.png'' (initial sample_world))) = chart (initial sample_world) @ new"
    and "Annotate (''Latest: $'' @ format_2f sample_world (col_close (last sample_rows)))
           (col_date (last sample_rows)) (col_close (last sample_rows)) \<in> set new"
    by blast
  with rows latest show ?thesis by simp
qed



subsection \<open>The key and the prompts\<close>

lemma get_api_key_result:
  "get_api_key w s =
     (case getenv w ''POLYGON_API_KEY'' of
        Some (c # cs) \<Rightarrow> (Inr (Some (c # cs)), s)
      | _ \<Rightarrow>
         (case stdin s of
            [] \<Rightarrow> (Inl (Exn EOFError ''EOF when reading a line''),
                   s\<lparr>console := console s @ [''Enter your Polygon.io API key: '']\<rparr>)
          | line # rest \<Rightarrow>
              if strip line = []
              then (Inr None,
                    s\<lparr>console := console s @ [''Enter your Polygon.io API key: '',
                                               ''API key is required to continue''],
                      stdin := rest\<rparr>)
              else (Inr (Some (strip line)),
                    s\<lparr>console := console s @ [''Enter your Polygon.io API key: ''],
                      stdin := rest\<rparr>)))"
  by (simp add: get_api_key_def input_def bind_io_def return_io_def print_def Let_def
      split: option.splits list.splits)

lemma run_cases:
  obtains
    (stopped) "requests (snd (run w)) = []" and "files (snd (run w)) = []"
      and "chart (snd (run w)) = []" and "fst (run w) \<noteq> Inr Finished"
  | (fetched) pre key line days rest cons where
      "stdin_lines w = pre @ line # days # rest"
      and "length pre = (case getenv w ''POLYGON_API_KEY'' of Some (c # cs) \<Rightarrow> 0 | _ \<Rightarrow> 1)"
      and "key \<noteq> []"
      and "run w = fetch_and_report w key (upper w line) days
                     ((initial w)\<lparr>console := cons, stdin := rest\<rparr>)"
proof -
  consider (env) c cs where "getenv w ''POLYGON_API_KEY'' = Some (c # cs)"
    | (prompt) "getenv w ''POLYGON_API_KEY'' = None \<or> getenv w ''POLYGON_API_KEY'' = Some []"
    by (cases "getenv w ''POLYGON_API_KEY''"; cases "the (getenv w ''POLYGON_API_KEY'')") auto
  then show thesis
  proof cases
    case env
    show thesis
    proof (cases "stdin_lines w")
      case Nil
      with env show thesis
        by (intro stopped)
          (simp_all add: run_def main_def get_api_key_result bind_io_def print_def input_def
            initial_def)
    next
      case (Cons line tl)
      show thesis
      proof (cases tl)
        case Nil
        with env Cons show thesis
          by (intro stopped)
            (simp_all add: run_def main_def get_api_key_result bind_io_def print_def input_def
              initial_def)
      next
        case (Cons days rest)
        with env \<open>stdin_lines w = line # tl\<close> show thesis
          by (intro fetched[of "[]" line days rest "c # cs"])
            (simp_all add: run_def main_def get_api_key_result bind_io_def print_def input_def
              initial_def)
      qed
    qed
  next
    case prompt
    then have length_pre:
      "(case getenv w ''POLYGON_API_KEY'' of Some (c # cs) \<Rightarrow> 0 | _ \<Rightarrow> 1) = (1::nat)"
      by auto
    from prompt have key:
      "get_api_key w s =
         (case stdin s of
            [] \<Rightarrow> (Inl (Exn EOFError ''EOF when reading a line''),
                   s\<lparr>console := console s @ [''Enter your Polygon.io API key: '']\<rparr>)
          | line # rest \<Rightarrow>
              if strip line = []
              then (Inr None,
                    s\<lparr>console := console s @ [''Enter your Polygon.io API key: '',
                                               ''API key is required to continue''],
                      stdin := rest\<rparr>)
              else (Inr (Some (strip line)),
                    s\<lparr>console := console s @ [''Enter your Polygon.io API key: ''],
                      stdin := rest\<rparr>))" for s
      by (auto simp: get_api_key_result)
    show thesis
    proof (cases "stdin_lines w")
      case Nil
      then show thesis
        by (intro stopped)
          (simp_all add: run_def main_def key bind_io_def print_def input_def initial_def)
    next
      case first: (Cons l tl)
      show thesis
      proof (cases "strip l = []")
        case True
        with first show thesis
          by (intro stopped)
            (simp_all add: run_def main_def key bind_io_def print_def input_def initial_def
              return_io_def)
      next
        case False
        then obtain c cs where stripped: "strip l = c # cs"
          by (cases "strip l") auto
        show thesis
        proof (cases tl)
          case Nil
          with first stripped show thesis
            by (intro stopped)
              (simp_all add: run_def main_def key bind_io_def print_def input_def initial_def)
        next
          case second: (Cons line tl')
          show thesis
          proof (cases tl')
            case Nil
            with first second stripped show thesis
              by (intro stopped)
                (simp_all add: run_def main_def key bind_io_def print_def input_def initial_def)
          next
            case (Cons days rest)
            with first second stripped length_pre show thesis
              by (intro fetched[of "[l]" line days rest "strip l"])
                (simp_all add: run_def main_def key bind_io_def print_def input_def initial_def)
          qed
        qed
      qed
    qed
  qed
qed


subsection \<open>What a step leaves unchanged\<close>

lemma bind_io_keeps:
  assumes "\<And>s. g (snd (m s)) = g s" and "\<And>x s. g (snd (f x s)) = g s"
  shows "g (snd (bind_io m f s)) = g s"
proof (cases "m s")
  case (Pair r s1)
  with assms(1)[of s] have "g s1 = g s" by simp
  with Pair assms(2) show ?thesis
    by (cases r) (simp_all add: bind_io_def)
qed

lemma seq_io_keeps:
  assumes "\<And>m s. m \<in> set ms \<Longrightarrow> g (snd (m s)) = g s"
  shows "g (snd (seq_io ms s)) = g s"
  using assms
proof (induction ms arbitrary: s)
  case Nil
  then show ?case by simp
next
  case (Cons m ms)
  obtain r s1 where step: "m s = (r, s1)" by (cases "m s")
  with Cons.prems[of m s] have "g s1 = g s" by simp
  moreover have "g (snd (seq_io ms s1)) = g s1"
    by (rule Cons.IH) (simp add: Cons.prems)
  ultimately show ?case using step by (cases r) simp_all
qed

lemma try_except_keeps:
  assumes "\<And>s. g (snd (body s)) = g s" and "\<And>e s. g (snd (handler e s)) = g s"
  shows "g (snd (try_except body handler s)) = g s"
proof (cases "body s")
  case (Pair r s1)
  with assms(1)[of s] have "g s1 = g s" by simp
  with Pair assms(2) show ?thesis
    by (cases r) (simp_all add: try_except_def)
qed

lemma with_open_keeps:
  assumes "\<And>s. g (snd (open_w w filename s)) = g s" and "\<And>s. g (snd (body s)) = g s"
  shows "g (snd (with_open w filename body s)) = g s"
proof (cases "open_w w filename s")
  case (Pair r s1)
  with assms(1)[of s] have "g s1 = g s" by simp
  with Pair assms(2)[of s1] show ?thesis
    by (cases r; cases "body s1") (simp_all add: with_open_def split: option.splits)
qed

lemma requests_save_to_text_file:
  "requests (snd (save_to_text_file w df filename s)) = requests s"
  unfolding save_to_text_file_def write_table_def header_writes_def
  by (cases df)
    (auto intro!: try_except_keeps with_open_keeps seq_io_keeps bind_io_keeps
          simp: print_def open_w_def f_write_def now_def split: option.splits)

lemma requests_create_price_graph:
  "requests (snd (create_price_graph w stock days_tracked df filename s)) = requests s"
  unfolding create_price_graph_def draw_chart_def Let_def
  by (cases df)
    (auto intro!: try_except_keeps seq_io_keeps bind_io_keeps
          simp: print_def plt_def lift_io_def split: option.splits plt_call.splits)

subsection \<open>The fetch\<close>

lemmas results_eval = contains_results_def results_truthy_def results_of_def

lemma get_stock_data_request:
  assumes "py_int days_tracked = Some n" and "\<bar>n\<bar> \<le> 999999999"
    and "1 \<le> ordinal (clock w (Suc (ticks s))) - n"
    and "ordinal (clock w (Suc (ticks s))) - n \<le> max_ordinal"
  shows "get_stock_data w api_key ticker days_tracked s =
     (let req = \<lparr>url = api_url ticker (strftime_ymd (ordinal (clock w (Suc (ticks s))) - n))
                                   (strftime_ymd (ordinal (clock w (ticks s)))),
                 params = api_params api_key\<rparr>;
          s1 = s\<lparr>ticks := Suc (Suc (ticks s)), requests := requests s @ [req]\<rparr>
      in case http_get w req of
           Inl e \<Rightarrow> (Inl e, s1)
         | Inr response \<Rightarrow>
             if status_code response = 200 then
               (case resp_json response of
                  NotJson \<Rightarrow> (Inl (Exn JSONDecodeError ''Expecting value''), s1)
                | Json data \<Rightarrow>
                    (case contains_results data of
                       Inl e \<Rightarrow> (Inl e, s1)
                     | Inr present \<Rightarrow>
                         (case (if present then results_truthy data else Inr False) of
                            Inl e \<Rightarrow> (Inl e, s1)
                          | Inr nonempty \<Rightarrow>
                              if nonempty then
                                (case results_of data of
                                   Inl e \<Rightarrow> (Inl e, s1)
                                 | Inr results \<Rightarrow>
                                     (case final_df w results of
                                        Inl e \<Rightarrow> (Inl e, s1)
                                      | Inr df \<Rightarrow> (Inr (Some df), s1)))
                              else
                                (Inr None,
                                 s1\<lparr>console := console s
                                      @ [''No data found in API response'']\<rparr>))))
             else (Inr None,
                   s1\<lparr>console := console s @ [''API Error: '' @ str_int (status_code response)
                                                  @ '' - '' @ resp_text response]\<rparr>))"
  using assms
  by (simp add: get_stock_data_def io_defs int_of_str_def timedelta_days_def datetime_sub_def
      response_json_def Let_def
      split: sum.splits body.splits json.splits bool.splits option.splits list.splits)

lemma get_stock_data_no_request:
  assumes "py_int days_tracked = None \<or>
           (\<exists>n. py_int days_tracked = Some n \<and>
              \<not> (\<bar>n\<bar> \<le> 999999999 \<and> 1 \<le> ordinal (clock w (Suc (ticks s))) - n
                 \<and> ordinal (clock w (Suc (ticks s))) - n \<le> max_ordinal))"
  shows "\<exists>e. get_stock_data w api_key ticker days_tracked s
              = (Inl e, s\<lparr>ticks := Suc (Suc (ticks s))\<rparr>)"
  using assms
  by (auto simp add: get_stock_data_def io_defs int_of_str_def timedelta_days_def datetime_sub_def
      Let_def)



lemma get_stock_data_requests:
  "requests (snd (get_stock_data w api_key ticker days_tracked s)) = requests s
   \<or> (\<exists>n. py_int days_tracked = Some n \<and>
          requests (snd (get_stock_data w api_key ticker days_tracked s))
            = requests s @
              [\<lparr>url = api_url ticker (strftime_ymd (ordinal (clock w (Suc (ticks s))) - n))
                                    (strftime_ymd (ordinal (clock w (ticks s)))),
                params = api_params api_key\<rparr>])"
proof (cases "py_int days_tracked")
  case None
  with get_stock_data_no_request[of days_tracked w s api_key ticker] show ?thesis by auto
next
  case (Some n)
  show ?thesis
  proof (cases "\<bar>n\<bar> \<le> 999999999 \<and> 1 \<le> ordinal (clock w (Suc (ticks s))) - n
                 \<and> ordinal (clock w (Suc (ticks s))) - n \<le> max_ordinal")
    case True
    with Some show ?thesis
      by (intro disjI2 exI[of _ n])
        (simp add: get_stock_data_request Let_def
          split: sum.splits body.splits json.splits bool.splits option.splits list.splits)
  next
    case False
    with Some get_stock_data_no_request[of days_tracked w s api_key ticker] show ?thesis by auto
  qed
qed

lemma get_stock_data_bad_response:
  assumes "get_stock_data w api_key ticker days_tracked s = (r, s')"
    and "requests s' = requests s @ [req]"
    and "http_get w req = Inr response"
    and "status_code response \<noteq> 200 \<or> resp_json response = Json (Object None)
         \<or> resp_json response = Json (Object (Some []))"
  shows "r = Inr None \<and>
         s' = s\<lparr>ticks := Suc (Suc (ticks s)), requests := requests s @ [req],
                console := console s @
                  [if status_code response = 200 then ''No data found in API response''
                   else ''API Error: '' @ str_int (status_code response) @ '' - ''
                          @ resp_text response]\<rparr>"
proof (cases "py_int days_tracked")
  case None
  with get_stock_data_no_request[of days_tracked w s api_key ticker] assms(1,2)
  show ?thesis by auto
next
  case (Some n)
  show ?thesis
  proof (cases "\<bar>n\<bar> \<le> 999999999 \<and> 1 \<le> ordinal (clock w (Suc (ticks s))) - n
                 \<and> ordinal (clock w (Suc (ticks s))) - n \<le> max_ordinal")
    case False
    with Some get_stock_data_no_request[of days_tracked w s api_key ticker] assms(1,2)
    show ?thesis by auto
  next
    case True
    let ?req = "\<lparr>url = api_url ticker (strftime_ymd (ordinal (clock w (Suc (ticks s))) - n))
                                    (strftime_ymd (ordinal (clock w (ticks s)))),
                params = api_params api_key\<rparr>"
    from True Some get_stock_data_requests[of w api_key ticker days_tracked s] assms(1,2)
    have "req = ?req"
      by (auto simp: get_stock_data_request Let_def
          split: sum.splits body.splits json.splits bool.splits option.splits list.splits if_splits)
    with True Some assms show ?thesis
      by (auto simp: get_stock_data_request Let_def results_eval)
  qed
qed

lemma fetch_and_report_requests:
  "requests (snd (fetch_and_report w api_key stock days_tracked s))
     = requests (snd (get_stock_data w api_key stock days_tracked s))"
proof (cases "get_stock_data w api_key stock days_tracked s")
  case (Pair r1 s2)
  show ?thesis
  proof (cases r1)
    case (Inl e)
    with Pair show ?thesis by (simp add: fetch_and_report_def bind_io_def)
  next
    case (Inr stock_data)
    show ?thesis
    proof (cases stock_data)
      case None
      with Pair Inr show ?thesis
        by (simp add: fetch_and_report_def bind_io_def print_def return_io_def)
    next
      case (Some df)
      have "requests (snd (bind_io (print (newline @ ''Successfully retrieved data for '' @ stock)) (\<lambda>_.
         bind_io (save_to_text_file w (Some df) default_text_filename) (\<lambda>_.
         bind_io (create_price_graph w stock days_tracked (Some df) default_chart_filename)
           (\<lambda>_. return_io Finished))) s2)) = requests s2"
        by (intro bind_io_keeps)
          (simp_all add: print_def return_io_def requests_save_to_text_file
            requests_create_price_graph)
      with Pair Inr Some show ?thesis
        by (simp add: fetch_and_report_def bind_io_def)
    qed
  qed
qed

text \<open>
  The upper-case form of an ASCII character by its code: the letters \<open>a\<close> to \<open>z\<close> have
  the codes 97 to 122 and their capitals lie 32 below; no other code changes.
\<close>

lemma upper_char_code:
  "(of_char (upper_char c) :: nat)
     = (if 97 \<le> (of_char c :: nat) \<and> (of_char c :: nat) \<le> 122 then of_char c - 32
        else of_char c)"
proof (cases c)
  case (Char b0 b1 b2 b3 b4 b5 b6 b7)
  then show ?thesis
    by (cases b0; cases b1; cases b2; cases b3; cases b4; cases b5; cases b6; cases b7)
      (simp_all add: upper_char_def ascii_lowercase_def ascii_uppercase_def)
qed

lemma upper_char_arith:
  "upper_char c
     = char_of (if 97 \<le> (of_char c :: nat) \<and> (of_char c :: nat) \<le> 122 then of_char c - 32
                else (of_char c :: nat))"
proof -
  have "upper_char c = char_of (of_char (upper_char c) :: nat)" by simp
  then show ?thesis by (simp only: upper_char_code)
qed

lemma upper_by_code:
  "upper w s
     = concat (map (\<lambda>c. if (of_char c :: nat) < 128
                         then [char_of (if 97 \<le> (of_char c :: nat) \<and> (of_char c :: nat) \<le> 122
                                        then of_char c - 32 else (of_char c :: nat))]
                         else unicode_upper w c) s)"
  unfolding upper_def is_ascii_def by (simp only: upper_char_arith[symmetric])

lemma upper_ascii_length:
  assumes "\<forall>c\<in>set s. is_ascii c"
  shows "length (upper w s) = length s"
  using assms by (induction s) (simp_all add: upper_def)

lemma upper_ascii_no_lowercase:
  assumes "\<forall>c\<in>set s. is_ascii c" and "u \<in> set (upper w s)"
  shows "\<not> (97 \<le> (of_char u :: nat) \<and> (of_char u :: nat) \<le> 122)"
proof -
  from assms obtain c where "c \<in> set s" and "u = upper_char c"
    by (auto simp: upper_def split: if_splits)
  then show ?thesis
    using upper_char_code[of c] by (auto split: if_splits)
qed

text \<open>
  Claim C10. Every request a run sends has in its URL the ticker line the user typed,
  converted to upper case: the line is the first one typed when the key comes from the
  environment and the second one otherwise, and the URL is the endpoint prefix, the
  upper-cased line, \<open>/range/1/day/\<close> and the two dates. The upper-cased line is the
  line with every character replaced: a lower-case letter \<open>a\<close> to \<open>z\<close> (codes 97 to 122)
  by its capital (the code 32 below), any other ASCII character by itself, and a
  character beyond ASCII by what the library's case mapping gives. So on an ASCII line
  the conversion keeps the length and leaves no lower-case letter.
\<close>

theorem ticker_uppercased_in_url:
  assumes "req \<in> set (requests (snd (run w)))"
  shows "\<exists>pre line rest start_date end_date.
           stdin_lines w = pre @ line # rest
         \<and> length pre = (case getenv w ''POLYGON_API_KEY'' of Some (c # cs) \<Rightarrow> 0 | _ \<Rightarrow> 1)
         \<and> url req = ''https://api.polygon.io/v2/aggs/ticker/'' @ upper w line
                        @ ''/range/1/day/'' @ start_date @ ''/'' @ end_date
         \<and> upper w line
             = concat (map (\<lambda>c. if (of_char c :: nat) < 128
                                 then [char_of (if 97 \<le> (of_char c :: nat)
                                                   \<and> (of_char c :: nat) \<le> 122
                                                then of_char c - 32 else (of_char c :: nat))]
                                 else unicode_upper w c) line)
         \<and> ((\<forall>c\<in>set line. (of_char c :: nat) < 128) \<longrightarrow>
               length (upper w line) = length line
               \<and> (\<forall>u\<in>set (upper w line).
                     \<not> (97 \<le> (of_char u :: nat) \<and> (of_char u :: nat) \<le> 122)))"
proof (cases w rule: run_cases)
  case stopped
  with assms show ?thesis by simp
next
  case (fetched pre key line days rest cons)
  let ?s1 = "(initial w)\<lparr>console := cons, stdin := rest\<rparr>"
  from fetched(4) have "requests (snd (run w))
      = requests (snd (get_stock_data w key (upper w line) days ?s1))"
    by (simp add: fetch_and_report_requests)
  with assms get_stock_data_requests[of w key "upper w line" days ?s1]
  obtain start_date end_date where "url req = api_url (upper w line) start_date end_date"
    by (auto simp: initial_def)
  then have address: "url req = ''https://api.polygon.io/v2/aggs/ticker/'' @ upper w line
                        @ ''/range/1/day/'' @ start_date @ ''/'' @ end_date"
    by (simp add: api_url_def)
  have plain: "length (upper w line) = length line
               \<and> (\<forall>u\<in>set (upper w line).
                     \<not> (97 \<le> (of_char u :: nat) \<and> (of_char u :: nat) \<le> 122))"
    if "\<forall>c\<in>set line. (of_char c :: nat) < 128"
    using that upper_ascii_length[of line w] upper_ascii_no_lowercase[of line _ w]
    by (auto simp: is_ascii_def)
  from fetched(1,2) address upper_by_code[of w line] plain show ?thesis
    by blast
qed

text \<open>
  A refused or empty answer. When the response to the request has a status other than
  200, or has status 200 and a JSON object for its body, without \<open>results\<close> or with an
  empty \<open>results\<close> array, then \<open>get_stock_data\<close> prints one error line and returns
  \<open>None\<close> without touching files or chart; and the run that sent the request prints
  \<open>Failed to retrieve data\<close>, ends normally, and has written no file and drawn no chart.
\<close>

lemma bad_response_stops_pipeline:
  assumes "http_get w req = Inr response"
    and "status_code response \<noteq> 200 \<or> resp_json response = Json (Object None)
         \<or> resp_json response = Json (Object (Some []))"
  shows "(\<forall>api_key ticker days_tracked s r s'.
            get_stock_data w api_key ticker days_tracked s = (r, s')
            \<and> requests s' = requests s @ [req] \<longrightarrow>
            r = Inr None \<and> files s' = files s \<and> chart s' = chart s \<and>
            console s' = console s @
              [if status_code response = 200 then ''No data found in API response''
               else ''API Error: '' @ str_int (status_code response) @ '' - ''
                      @ resp_text response])
       \<and> (req \<in> set (requests (snd (run w))) \<longrightarrow>
            fst (run w) = Inr Finished \<and> files (snd (run w)) = [] \<and> chart (snd (run w)) = []
            \<and> (\<exists>before. console (snd (run w)) = before @
                 [if status_code response = 200 then ''No data found in API response''
                  else ''API Error: '' @ str_int (status_code response) @ '' - ''
                         @ resp_text response,
                  ''Failed to retrieve data'']))"
proof (intro conjI allI impI)
  fix api_key ticker days_tracked and s s' :: "'a state" and r
  assume "get_stock_data w api_key ticker days_tracked s = (r, s') \<and>
          requests s' = requests s @ [req]"
  with get_stock_data_bad_response[OF _ _ assms, of api_key ticker days_tracked s r s']
  have "r = Inr None" and
    "s' = s\<lparr>ticks := Suc (Suc (ticks s)), requests := requests s @ [req],
                console := console s @
                  [if status_code response = 200 then ''No data found in API response''
                   else ''API Error: '' @ str_int (status_code response) @ '' - ''
                          @ resp_text response]\<rparr>"
    by blast+
  then show "r = Inr None" "files s' = files s" "chart s' = chart s"
    "console s' = console s @
              [if status_code response = 200 then ''No data found in API response''
               else ''API Error: '' @ str_int (status_code response) @ '' - ''
                      @ resp_text response]"
    by simp_all
next
  assume sent: "req \<in> set (requests (snd (run w)))"
  let ?msg = "if status_code response = 200 then ''No data found in API response''
               else ''API Error: '' @ str_int (status_code response) @ '' - ''
                      @ resp_text response"
  have "fst (run w) = Inr Finished \<and> files (snd (run w)) = [] \<and> chart (snd (run w)) = []
        \<and> (\<exists>before. console (snd (run w)) = before @ [?msg, ''Failed to retrieve data''])"
  proof (cases w rule: run_cases)
    case stopped
    with sent show ?thesis by simp
  next
    case (fetched pre key line days rest cons)
    let ?s1 = "(initial w)\<lparr>console := cons, stdin := rest\<rparr>"
    obtain r1 s2 where fetch: "get_stock_data w key (upper w line) days ?s1 = (r1, s2)"
      by (cases "get_stock_data w key (upper w line) days ?s1")
    from fetched(4) fetch have "requests (snd (run w)) = requests s2"
      by (simp add: fetch_and_report_requests)
    with sent get_stock_data_requests[of w key "upper w line" days ?s1] fetch
    have "requests s2 = requests ?s1 @ [req]"
      by (auto simp: initial_def)
    from get_stock_data_bad_response[OF fetch this assms]
    have "r1 = Inr None" and
      "s2 = ?s1\<lparr>ticks := Suc (Suc (ticks ?s1)), requests := requests ?s1 @ [req],
                console := console ?s1 @ [?msg]\<rparr>"
      by blast+
    with fetched(4) fetch show ?thesis
      by (simp add: fetch_and_report_def bind_io_def print_def return_io_def initial_def)
  qed
  then show "fst (run w) = Inr Finished" "files (snd (run w)) = []" "chart (snd (run w)) = []"
    "\<exists>before. console (snd (run w)) = before @ [?msg, ''Failed to retrieve data'']"
    by blast+
qed

subsection \<open>Concrete runs\<close>

lemma str_nat_digit: "n < 10 \<Longrightarrow> str_nat n = [digit_char n]"
  by (simp add: str_nat.simps)

lemma str_nat_more: "\<not> n < 10 \<Longrightarrow> str_nat n = str_nat (n div 10) @ [digit_char (n mod 10)]"
  by (subst str_nat.simps) simp

lemmas date_eval = strftime_ymd_def ord2ymd_def month_day_def days_before_month_def days_in_month_def zfill_def
  str_int_def str_nat_digit str_nat_more digit_char_def Let_def

lemmas int_eval = py_int_def int_strip_def int_isspace_def int_whitespace_def unsigned_def
  isdigit_def int_max_str_digits_def digit_val_def Let_def

lemma ymd_today: "strftime_ymd 739923 = ''2026-11-03''"
  by (simp add: date_eval)

lemma ymd_start: "strftime_ymd 739893 = ''2026-10-04''"
  by (simp add: date_eval)

text \<open>A year below 1000 is written with fewer than four digits.\<close>

lemma ymd_year_931: "strftime_ymd (739923 - 400000) = ''931-09-05''"
  by (simp add: date_eval)

lemma int_30: "py_int ''30'' = Some 30"
  by (simp add: int_eval)

lemma int_abc: "py_int ''abc'' = None"
  by (simp add: int_eval)

lemma int_million: "py_int ''1000000'' = Some 1000000"
  by (simp add: int_eval)

text \<open>
  What \<open>int()\<close> takes and refuses: the separators \<open>0x1C\<close> and \<open>0x1F\<close> around a number are
  refused although \<open>str.strip()\<close> removes them; tab and line feed are skipped; a sign,
  leading zeros and single underscores are taken.
\<close>

lemma int_examples:
  "py_int [CHR 0x1C, CHR ''3'', CHR ''0'', CHR 0x1F] = None"
  "strip [CHR 0x1C, CHR ''3'', CHR ''0'', CHR 0x1F] = ''30''"
  "py_int [CHR 0x09, CHR ''3'', CHR ''0'', CHR 0x0A] = Some 30"
  "py_int ''-1_0'' = Some (- 10)"
  "py_int ''+007'' = Some 7"
  "py_int ''1__0'' = None"
  "py_int ''3 0'' = None"
  "py_int '''' = None"
  by (simp_all add: int_eval strip_def isspace_def whitespace_def)

text \<open>A text of 4301 zeros is over the limit, although it denotes 0.\<close>

lemma int_zeros_too_long: "py_int (replicate 4301 (CHR ''0'')) = None"
proof -
  have keep: "int_strip (replicate n (CHR ''0'')) = replicate n (CHR ''0'')" for n
    by (simp add: int_strip_def int_isspace_def int_whitespace_def)
  have digits: "filter isdigit (replicate n (CHR ''0'')) = replicate n (CHR ''0'')" for n
    by (induction n) (simp_all add: isdigit_def)
  have plain: "unsigned (replicate n (CHR ''0'')) = replicate n (CHR ''0'')" for n
    by (cases n) (simp_all add: unsigned_def)
  show ?thesis
    by (simp add: py_int_def keep plain digits int_max_str_digits_def)
qed

text \<open>
  With the separators around the number of days, the conversion of line 84 raises, the
  handler of \<open>create_price_graph\<close> prints, and the chart has no annotation.
\<close>

lemma separators_no_annotation:
  "fst (draw_chart sample_world ''AAPL'' [CHR 0x1C, CHR ''3'', CHR ''0'', CHR 0x1F] sample_rows
          ''stock_chart.png'' (initial sample_world))
     = Inl (Exn ValueError
              (''invalid literal for int() with base 10: ''
                 @ [CHR 0x27, CHR 0x5C] @ ''x1c30'' @ [CHR 0x5C] @ ''x1f'' @ [CHR 0x27]))"
  "chart (snd (create_price_graph sample_world ''AAPL'' [CHR 0x1C, CHR ''3'', CHR ''0'', CHR 0x1F]
                 (Some sample_rows) ''stock_chart.png'' (initial sample_world)))
     = [Figure,
        Plot [1793318400000, 1793577600000] [102, 104],
        FillBetween [1793318400000, 1793577600000] [100, 101] [103, 105],
        Title (''AAPL Stock Price - Last '' @ [CHR 0x1C, CHR ''3'', CHR ''0'', CHR 0x1F] @ '' Days''),
        XLabel ''Date'', YLabel ''Price ($)'', Grid, Legend]"
  by (simp_all add: create_price_graph_def try_except_def draw_chart_def io_defs
      sample_world_def initial_def int_of_str_def int_eval int_error_def repr_def repr_char_def
      hex_digit_def iloc_last_def sample_rows_def sample_bars_def row_of_bar_def)

lemmas upper_eval = upper_def is_ascii_def upper_char_def ascii_lowercase_def
  ascii_uppercase_def

lemma upper_aapl: "upper w ''aapl'' = ''AAPL''"
  by (simp add: upper_eval)

lemma int_error_abc:
  "int_error ''abc''
     = Exn ValueError (''invalid literal for int() with base 10: '' @ [CHR 0x27] @ ''abc''
                         @ [CHR 0x27])"
  by (simp add: int_error_def int_strip_def int_isspace_def int_whitespace_def unsigned_def
      isdigit_def repr_def repr_char_def Let_def)


lemma get_stock_data_sends:
  assumes "py_int days_tracked = Some n" and "\<bar>n\<bar> \<le> 999999999"
    and "1 \<le> ordinal (clock w (Suc (ticks s))) - n"
    and "ordinal (clock w (Suc (ticks s))) - n \<le> max_ordinal"
  shows "requests (snd (get_stock_data w api_key ticker days_tracked s))
           = requests s @
             [\<lparr>url = api_url ticker (strftime_ymd (ordinal (clock w (Suc (ticks s))) - n))
                                   (strftime_ymd (ordinal (clock w (ticks s)))),
               params = api_params api_key\<rparr>]"
  using assms
  by (simp add: get_stock_data_request Let_def
      split: sum.splits body.splits json.splits bool.splits option.splits list.splits)

lemma sample_clock: "clock sample_world k = \<lparr>ordinal = 739923, second_of_day = 34200\<rparr>"
  by (simp add: sample_world_def)

lemmas prompt_eval = run_def main_def get_api_key_def bind_io_def return_io_def print_def
  input_def initial_def Let_def

lemma sample_prompts:
  assumes "getenv w = getenv sample_world" and "stdin_lines w = [''aapl'', days]"
  shows "run w = fetch_and_report w ''KEY'' ''AAPL'' days
                   ((initial w)\<lparr>console := [''=== Stock Price Tracker ==='' @ newline,
                                                newline @ ''Enter a Ticker to Track: '',
                                                ''Enter Number of Days: ''],
                                  stdin := []\<rparr>)"
  using assms by (simp add: prompt_eval sample_world_def upper_aapl)

theorem ticker_uppercased_in_url_witness:
  "\<lparr>url = ''https://api.polygon.io/v2/aggs/ticker/AAPL/range/1/day/2026-10-04/2026-11-03'',
    params = [(''adjusted'', ''true''), (''sort'', ''asc''), (''apikey'', ''KEY'')]\<rparr>
     \<in> set (requests (snd (run sample_world)))
   \<and> stdin_lines sample_world = [''aapl'', ''30'']
   \<and> upper sample_world ''aapl'' = ''AAPL''
   \<and> (\<exists>start_date end_date.
         ''https://api.polygon.io/v2/aggs/ticker/AAPL/range/1/day/2026-10-04/2026-11-03''
           = ''https://api.polygon.io/v2/aggs/ticker/'' @ upper sample_world ''aapl''
               @ ''/range/1/day/'' @ start_date @ ''/'' @ end_date)"
proof -
  let ?req = "\<lparr>url = ''https://api.polygon.io/v2/aggs/ticker/AAPL/range/1/day/2026-10-04/2026-11-03'',
    params = [(''adjusted'', ''true''), (''sort'', ''asc''), (''apikey'', ''KEY'')]\<rparr>"
  have run: "run sample_world = fetch_and_report sample_world ''KEY'' ''AAPL'' ''30''
                   ((initial sample_world)\<lparr>console := [''=== Stock Price Tracker ==='' @ newline,
                                                newline @ ''Enter a Ticker to Track: '',
                                                ''Enter Number of Days: ''],
                                  stdin := []\<rparr>)"
    by (rule sample_prompts) (simp_all add: sample_world_def)
  have sent: "?req \<in> set (requests (snd (run sample_world)))"
    by (simp add: run fetch_and_report_requests get_stock_data_sends[OF int_30]
        sample_clock initial_def max_ordinal_def ymd_today ymd_start api_url_def
        api_params_def)
  have typed: "stdin_lines sample_world = [''aapl'', ''30'']"
    and key: "getenv sample_world ''POLYGON_API_KEY'' = Some ''KEY''"
    by (simp_all add: sample_world_def)
  from ticker_uppercased_in_url[OF sent]
  obtain pre line rest start_date end_date where
    lines: "stdin_lines sample_world = pre @ line # rest"
    and first: "length pre
                  = (case getenv sample_world ''POLYGON_API_KEY'' of Some (c # cs) \<Rightarrow> 0 | _ \<Rightarrow> 1)"
    and address: "url ?req = ''https://api.polygon.io/v2/aggs/ticker/'' @ upper sample_world line
               @ ''/range/1/day/'' @ start_date @ ''/'' @ end_date"
    and converted: "upper sample_world line
             = concat (map (\<lambda>c. if (of_char c :: nat) < 128
                                 then [char_of (if 97 \<le> (of_char c :: nat)
                                                   \<and> (of_char c :: nat) \<le> 122
                                                then of_char c - 32 else (of_char c :: nat))]
                                 else unicode_upper sample_world c) line)"
    by blast
  from first key have "pre = []" by simp
  with lines typed have line: "line = ''aapl''" by simp
  from converted have capitals: "upper sample_world ''aapl'' = ''AAPL''"
    unfolding line by (simp add: char_of_def bit_Suc_0_iff)
  from address have "''https://api.polygon.io/v2/aggs/ticker/AAPL/range/1/day/2026-10-04/2026-11-03''
           = ''https://api.polygon.io/v2/aggs/ticker/'' @ upper sample_world ''aapl''
               @ ''/range/1/day/'' @ start_date @ ''/'' @ end_date"
    unfolding line by simp
  with sent typed capitals show ?thesis by blast
qed

text \<open>
  Other characters: a digit, a dot and a capital stay, and a character beyond ASCII
  becomes what the world's table gives (here \<open>0xC9\<close> for \<open>0xE9\<close>, and two letters for
  \<open>0xDF\<close>).
\<close>

lemma upper_examples:
  "upper sample_world ''brk.b'' = ''BRK.B''"
  "upper sample_world ''Msft9'' = ''MSFT9''"
  "upper sample_world [CHR 0xE9] = [CHR 0xC9]"
  "upper sample_world [CHR ''x'', CHR 0xDF] = ''XSS''"
  by (simp_all add: upper_eval sample_world_def latin1_upper_def char_of_def bit_Suc_0_iff)

lemma int_str_429: "str_int 429 = ''429''"
  by (simp add: str_int_def str_nat_digit str_nat_more digit_char_def)

lemma rate_limited_fields:
  "getenv rate_limited_world = getenv sample_world"
  "stdin_lines rate_limited_world = [''aapl'', ''30'']"
  "clock rate_limited_world k = \<lparr>ordinal = 739923, second_of_day = 34200\<rparr>"
  "http_get rate_limited_world req
     = Inr \<lparr>status_code = 429, resp_text = ''Too Many Requests'', resp_json = NotJson\<rparr>"
  by (simp_all add: rate_limited_world_def sample_world_def)

lemma no_bars_fields:
  "getenv no_bars_world = getenv sample_world"
  "stdin_lines no_bars_world = [''aapl'', ''30'']"
  "clock no_bars_world k = \<lparr>ordinal = 739923, second_of_day = 34200\<rparr>"
  "http_get no_bars_world req
     = Inr \<lparr>status_code = 200, resp_text = ''{}'', resp_json = Json (Object None)\<rparr>"
  by (simp_all add: no_bars_world_def sample_world_def)

lemma bad_response_stops_pipeline_examples:
  "fst (run rate_limited_world) = Inr Finished
   \<and> files (snd (run rate_limited_world)) = []
   \<and> chart (snd (run rate_limited_world)) = []
   \<and> (\<exists>before. console (snd (run rate_limited_world))
         = before @ [''API Error: 429 - Too Many Requests'', ''Failed to retrieve data''])
   \<and> fst (run no_bars_world) = Inr Finished
   \<and> files (snd (run no_bars_world)) = []
   \<and> chart (snd (run no_bars_world)) = []
   \<and> (\<exists>before. console (snd (run no_bars_world))
         = before @ [''No data found in API response'', ''Failed to retrieve data''])"
proof -
  let ?req = "\<lparr>url = ''https://api.polygon.io/v2/aggs/ticker/AAPL/range/1/day/2026-10-04/2026-11-03'',
    params = [(''adjusted'', ''true''), (''sort'', ''asc''), (''apikey'', ''KEY'')]\<rparr>"
  let ?refused = "\<lparr>status_code = 429, resp_text = ''Too Many Requests'',
                     resp_json = (NotJson :: int body)\<rparr>"
  let ?empty = "\<lparr>status_code = 200, resp_text = ''{}'',
                  resp_json = (Json (Object None) :: int body)\<rparr>"
  have refused: "http_get rate_limited_world ?req = Inr ?refused"
    by (rule rate_limited_fields)
  have bad: "status_code ?refused \<noteq> 200 \<or> resp_json ?refused = Json (Object None)
             \<or> resp_json ?refused = Json (Object (Some []))"
    by simp
  have run: "run rate_limited_world = fetch_and_report rate_limited_world ''KEY'' ''AAPL'' ''30''
                   ((initial rate_limited_world)
                      \<lparr>console := [''=== Stock Price Tracker ==='' @ newline,
                                   newline @ ''Enter a Ticker to Track: '',
                                   ''Enter Number of Days: ''],
                       stdin := []\<rparr>)"
    by (rule sample_prompts) (simp_all add: rate_limited_fields)
  have sent: "?req \<in> set (requests (snd (run rate_limited_world)))"
    by (simp add: run fetch_and_report_requests get_stock_data_sends[OF int_30]
        rate_limited_fields initial_def max_ordinal_def ymd_today ymd_start api_url_def
        api_params_def)
  have empty: "http_get no_bars_world ?req = Inr ?empty"
    by (rule no_bars_fields)
  have bad': "status_code ?empty \<noteq> 200 \<or> resp_json ?empty = Json (Object None)
             \<or> resp_json ?empty = Json (Object (Some []))"
    by simp
  have run': "run no_bars_world = fetch_and_report no_bars_world ''KEY'' ''AAPL'' ''30''
                   ((initial no_bars_world)
                      \<lparr>console := [''=== Stock Price Tracker ==='' @ newline,
                                   newline @ ''Enter a Ticker to Track: '',
                                   ''Enter Number of Days: ''],
                       stdin := []\<rparr>)"
    by (rule sample_prompts) (simp_all add: no_bars_fields)
  have sent': "?req \<in> set (requests (snd (run no_bars_world)))"
    by (simp add: run' fetch_and_report_requests get_stock_data_sends[OF int_30]
        no_bars_fields initial_def max_ordinal_def ymd_today ymd_start api_url_def
        api_params_def)
  from bad_response_stops_pipeline[OF refused bad] sent
    bad_response_stops_pipeline[OF empty bad'] sent'
  show ?thesis
    by (simp add: int_str_429)
qed

subsection \<open>The key\<close>

text \<open>
  Claim C6. \<open>get_api_key\<close> returns the value of \<open>POLYGON_API_KEY\<close> when it is set and not
  empty, without prompting. Otherwise it prompts and reads a line: when the stripped line
  is empty it prints \<open>API key is required to continue\<close> and returns \<open>None\<close>, else it
  returns the stripped line. In the first of these two cases the run prints
  \<open>Exiting...\<close>, leaves through \<open>exit()\<close> and has sent no request.
\<close>

theorem get_api_key_resolution:
  "(\<forall>k. getenv w ''POLYGON_API_KEY'' = Some k \<and> k \<noteq> [] \<longrightarrow>
        get_api_key w s = (Inr (Some k), s))
   \<and> (\<forall>line rest. getenv w ''POLYGON_API_KEY'' \<in> {None, Some []} \<and> stdin s = line # rest \<longrightarrow>
        get_api_key w s =
          (if strip line = []
           then (Inr None,
                 s\<lparr>console := console s @ [''Enter your Polygon.io API key: '',
                                            ''API key is required to continue''],
                   stdin := rest\<rparr>)
           else (Inr (Some (strip line)),
                 s\<lparr>console := console s @ [''Enter your Polygon.io API key: ''],
                   stdin := rest\<rparr>)))
   \<and> (\<forall>line rest. getenv w ''POLYGON_API_KEY'' \<in> {None, Some []}
                    \<and> stdin_lines w = line # rest \<and> strip line = [] \<longrightarrow>
        fst (run w) = Inr Exited \<and> requests (snd (run w)) = []
        \<and> console (snd (run w)) = [''=== Stock Price Tracker ==='' @ newline,
                                     ''Enter your Polygon.io API key: '',
                                     ''API key is required to continue'', ''Exiting...''])"
proof (intro conjI allI impI)
  fix k
  assume "getenv w ''POLYGON_API_KEY'' = Some k \<and> k \<noteq> []"
  then show "get_api_key w s = (Inr (Some k), s)"
    by (cases k) (simp_all add: get_api_key_result)
next
  fix line rest
  assume "getenv w ''POLYGON_API_KEY'' \<in> {None, Some []} \<and> stdin s = line # rest"
  then show "get_api_key w s =
          (if strip line = []
           then (Inr None,
                 s\<lparr>console := console s @ [''Enter your Polygon.io API key: '',
                                            ''API key is required to continue''],
                   stdin := rest\<rparr>)
           else (Inr (Some (strip line)),
                 s\<lparr>console := console s @ [''Enter your Polygon.io API key: ''],
                   stdin := rest\<rparr>))"
    by (auto simp: get_api_key_result)
next
  fix line rest
  assume blank: "getenv w ''POLYGON_API_KEY'' \<in> {None, Some []}
                 \<and> stdin_lines w = line # rest \<and> strip line = []"
  then have "run w = (Inr Exited,
      (initial w)\<lparr>console := [''=== Stock Price Tracker ==='' @ newline,
                                     ''Enter your Polygon.io API key: '',
                                     ''API key is required to continue'', ''Exiting...''],
                   stdin := rest\<rparr>)"
    by (auto simp: run_def main_def get_api_key_result bind_io_def return_io_def print_def
        initial_def)
  then show "fst (run w) = Inr Exited" "requests (snd (run w)) = []"
    "console (snd (run w)) = [''=== Stock Price Tracker ==='' @ newline,
                                     ''Enter your Polygon.io API key: '',
                                     ''API key is required to continue'', ''Exiting...'']"
    by (simp_all add: initial_def)
qed

theorem get_api_key_resolution_witness:
  "get_api_key sample_world (initial sample_world) = (Inr (Some ''KEY''), initial sample_world)
   \<and> get_api_key typed_key_world (initial typed_key_world)
       = (Inr (Some ''abc123''),
          (initial typed_key_world)\<lparr>console := [''Enter your Polygon.io API key: ''],
                                      stdin := [''aapl'', ''30'']\<rparr>)
   \<and> fst (run no_key_world) = Inr Exited
   \<and> requests (snd (run no_key_world)) = []"
proof -
  have env: "getenv sample_world ''POLYGON_API_KEY'' = Some ''KEY'' \<and> ''KEY'' \<noteq> []"
    by (simp add: sample_world_def)
  have typed: "getenv typed_key_world ''POLYGON_API_KEY'' \<in> {None, Some []}
               \<and> stdin (initial typed_key_world) = '' abc123 '' # [''aapl'', ''30'']"
    and stripped: "strip '' abc123 '' = ''abc123''"
    by (simp_all add: typed_key_world_def sample_world_def initial_def strip_def isspace_def
        whitespace_def)
  have blank: "getenv no_key_world ''POLYGON_API_KEY'' \<in> {None, Some []}
               \<and> stdin_lines no_key_world = ''   '' # [''aapl'', ''30''] \<and> strip ''   '' = []"
    by (simp add: no_key_world_def sample_world_def strip_def isspace_def whitespace_def)
  from env get_api_key_resolution[of sample_world "initial sample_world"]
  have "get_api_key sample_world (initial sample_world)
          = (Inr (Some ''KEY''), initial sample_world)"
    by blast
  moreover from typed get_api_key_resolution[of typed_key_world "initial typed_key_world"]
  have "get_api_key typed_key_world (initial typed_key_world)
          = (if strip '' abc123 '' = []
           then (Inr None,
                 (initial typed_key_world)\<lparr>console := console (initial typed_key_world)
                      @ [''Enter your Polygon.io API key: '',
                         ''API key is required to continue''],
                   stdin := [''aapl'', ''30'']\<rparr>)
           else (Inr (Some (strip '' abc123 '')),
                 (initial typed_key_world)\<lparr>console := console (initial typed_key_world)
                      @ [''Enter your Polygon.io API key: ''],
                   stdin := [''aapl'', ''30'']\<rparr>))"
    by blast
  moreover from blank get_api_key_resolution[of no_key_world "initial no_key_world"]
  have "fst (run no_key_world) = Inr Exited \<and> requests (snd (run no_key_world)) = []"
    by blast
  ultimately show ?thesis
    by (simp add: stripped initial_def)
qed

subsection \<open>Exceptions that leave \<open>get_stock_data\<close>\<close>

lemma letters_fields:
  "getenv letters_world = getenv sample_world"
  "stdin_lines letters_world = [''aapl'', ''abc'']"
  by (simp_all add: letters_world_def sample_world_def)

lemma offline_fields:
  "getenv offline_world = getenv sample_world"
  "stdin_lines offline_world = [''aapl'', ''30'']"
  "clock offline_world k = \<lparr>ordinal = 739923, second_of_day = 34200\<rparr>"
  "http_get offline_world req = Inl (Exn ConnectionError ''Max retries exceeded'')"
  by (simp_all add: offline_world_def sample_world_def)

text \<open>
  Claim C1 says that no exception leaves \<open>get_stock_data\<close> or the main program. The code
  has no handler there: with letters typed for the number of days the \<open>ValueError\<close> of
  \<open>int()\<close> leaves \<open>get_stock_data\<close> and ends the run, and so does the exception of the
  HTTP GET when the network is down.
\<close>

theorem get_stock_data_lets_exceptions_escape:
  "fst (get_stock_data letters_world ''KEY'' ''AAPL'' ''abc'' (initial letters_world))
     = Inl (Exn ValueError
             (''invalid literal for int() with base 10: '' @ [CHR 0x27] @ ''abc'' @ [CHR 0x27]))
   \<and> fst (run letters_world)
     = Inl (Exn ValueError
             (''invalid literal for int() with base 10: '' @ [CHR 0x27] @ ''abc'' @ [CHR 0x27]))
   \<and> fst (get_stock_data offline_world ''KEY'' ''AAPL'' ''30'' (initial offline_world))
     = Inl (Exn ConnectionError ''Max retries exceeded'')
   \<and> fst (run offline_world) = Inl (Exn ConnectionError ''Max retries exceeded'')"
proof -
  have letters: "fst (get_stock_data letters_world ''KEY'' ''AAPL'' ''abc'' s)
     = Inl (Exn ValueError
             (''invalid literal for int() with base 10: '' @ [CHR 0x27] @ ''abc'' @ [CHR 0x27]))"
    for s
    by (simp add: get_stock_data_def bind_io_def now_def lift_io_def int_of_str_def int_abc
        int_error_abc)
  have offline: "fst (get_stock_data offline_world ''KEY'' ''AAPL'' ''30'' s)
     = Inl (Exn ConnectionError ''Max retries exceeded'')" if "ticks s = 0" for s
    using that
    by (simp add: get_stock_data_request[OF int_30] offline_fields max_ordinal_def)
  have run_letters: "run letters_world = fetch_and_report letters_world ''KEY'' ''AAPL'' ''abc''
                   ((initial letters_world)
                      \<lparr>console := [''=== Stock Price Tracker ==='' @ newline,
                                   newline @ ''Enter a Ticker to Track: '',
                                   ''Enter Number of Days: ''],
                       stdin := []\<rparr>)"
    by (rule sample_prompts) (simp_all add: letters_fields)
  have run_offline: "run offline_world = fetch_and_report offline_world ''KEY'' ''AAPL'' ''30''
                   ((initial offline_world)
                      \<lparr>console := [''=== Stock Price Tracker ==='' @ newline,
                                   newline @ ''Enter a Ticker to Track: '',
                                   ''Enter Number of Days: ''],
                       stdin := []\<rparr>)"
    by (rule sample_prompts) (simp_all add: offline_fields)
  have escapes: "fst (fetch_and_report w k t d s) = Inl e"
    if "fst (get_stock_data w k t d s) = Inl e" for w :: "int world" and k t d s e
    using that by (cases "get_stock_data w k t d s") (simp add: fetch_and_report_def bind_io_def)
  show ?thesis
    by (simp add: letters offline run_letters run_offline escapes initial_def)
qed

lemma null_body_fields:
  "getenv null_body_world = getenv sample_world"
  "stdin_lines null_body_world = [''aapl'', ''30'']"
  "clock null_body_world k = \<lparr>ordinal = 739923, second_of_day = 34200\<rparr>"
  "http_get null_body_world req
     = Inr \<lparr>status_code = 200, resp_text = ''null'', resp_json = Json Null\<rparr>"
  by (simp_all add: null_body_world_def sample_world_def)

text \<open>
  Claim C2 says that a response with status 200 whose parsed body lacks a \<open>results\<close> key
  makes \<open>get_stock_data\<close> print an error line and return \<open>None\<close>. The code does so when
  the body is a JSON object; the test \<open>'results' in data\<close> of line 30 has no case for a
  body that is no container. When the endpoint answers 200 with the JSON value \<open>null\<close>,
  the test raises \<open>TypeError\<close>: the exception leaves \<open>get_stock_data\<close> and ends the run,
  no error line is printed and no \<open>None\<close> is returned.
\<close>

theorem null_body_escapes:
  "http_get null_body_world
       \<lparr>url = ''https://api.polygon.io/v2/aggs/ticker/AAPL/range/1/day/2026-10-04/2026-11-03'',
        params = [(''adjusted'', ''true''), (''sort'', ''asc''), (''apikey'', ''KEY'')]\<rparr>
     = Inr \<lparr>status_code = 200, resp_text = ''null'', resp_json = Json Null\<rparr>
   \<and> get_stock_data null_body_world ''KEY'' ''AAPL'' ''30'' (initial null_body_world)
     = (Inl (Exn TypeError (''argument of type '' @ [CHR 0x27] @ ''NoneType'' @ [CHR 0x27]
                              @ '' is not iterable'')),
        (initial null_body_world)
          \<lparr>ticks := 2,
           requests :=
             [\<lparr>url = ''https://api.polygon.io/v2/aggs/ticker/AAPL/range/1/day/2026-10-04/2026-11-03'',
               params = [(''adjusted'', ''true''), (''sort'', ''asc''), (''apikey'', ''KEY'')]\<rparr>]\<rparr>)
   \<and> fst (run null_body_world)
     = Inl (Exn TypeError (''argument of type '' @ [CHR 0x27] @ ''NoneType'' @ [CHR 0x27]
                             @ '' is not iterable''))
   \<and> console (snd (run null_body_world))
     = [''=== Stock Price Tracker ==='' @ newline,
        newline @ ''Enter a Ticker to Track: '',
        ''Enter Number of Days: '']"
proof -
  let ?e = "Exn TypeError (''argument of type '' @ [CHR 0x27] @ ''NoneType'' @ [CHR 0x27]
                             @ '' is not iterable'')"
  let ?req = "\<lparr>url = ''https://api.polygon.io/v2/aggs/ticker/AAPL/range/1/day/2026-10-04/2026-11-03'',
               params = [(''adjusted'', ''true''), (''sort'', ''asc''), (''apikey'', ''KEY'')]\<rparr>"
  have fetch: "get_stock_data null_body_world ''KEY'' ''AAPL'' ''30'' s
     = (Inl ?e, s\<lparr>ticks := 2, requests := requests s @ [?req]\<rparr>)" if "ticks s = 0" for s
    using that
    by (simp add: get_stock_data_request[OF int_30] null_body_fields max_ordinal_def
        contains_results_def not_iterable_def ymd_today ymd_start api_url_def api_params_def)
  have run: "run null_body_world = fetch_and_report null_body_world ''KEY'' ''AAPL'' ''30''
                   ((initial null_body_world)
                      \<lparr>console := [''=== Stock Price Tracker ==='' @ newline,
                                   newline @ ''Enter a Ticker to Track: '',
                                   ''Enter Number of Days: ''],
                       stdin := []\<rparr>)"
    by (rule sample_prompts) (simp_all add: null_body_fields)
  show ?thesis
    by (simp add: null_body_fields fetch run fetch_and_report_def bind_io_def initial_def)
qed

lemma million_fields:
  "clock million_days_world k = \<lparr>ordinal = 739923, second_of_day = 34200\<rparr>"
  by (simp_all add: million_days_world_def sample_world_def)

text \<open>
  Claim C3 fails for a lookback that reaches before the first representable date: with
  a million days typed on 2026-11-03 the subtraction raises and no URL is built.
\<close>

theorem million_days_counterexample:
  "py_int ''1000000'' = Some 1000000
   \<and> fst (get_stock_data million_days_world ''KEY'' ''AAPL'' ''1000000''
            (initial million_days_world))
       = Inl (Exn OverflowError ''date value out of range'')
   \<and> requests (snd (get_stock_data million_days_world ''KEY'' ''AAPL'' ''1000000''
                       (initial million_days_world))) = []"
  by (simp add: int_million get_stock_data_def bind_io_def now_def lift_io_def int_of_str_def
      timedelta_days_def datetime_sub_def max_ordinal_def million_fields initial_def)

subsection \<open>Rows of the text report\<close>

lemma written_update_same:
  "written (s\<lparr>files := AList.update filename (TextFile cs) (files s)\<rparr>) filename = cs"
  by (simp add: written_def update_conv')

lemma f_write_written:
  assumes "f_write w filename chunk s = (r, s')"
  shows "(r = Inr () \<and> written s' filename = written s filename @ [chunk])
         \<or> ((\<exists>e. r = Inl e) \<and> s' = s)"
  using assms by (auto simp: f_write_def written_update_same split: option.splits)

lemma seq_io_append:
  "seq_io (xs @ ys) s =
     (case seq_io xs s of (Inl e, s') \<Rightarrow> (Inl e, s') | (Inr u, s') \<Rightarrow> seq_io ys s')"
  by (induction xs arbitrary: s) (auto split: prod.splits sum.splits)

lemma seq_io_appends:
  assumes "\<And>m s r s'. m \<in> set ms \<Longrightarrow> m s = (r, s') \<Longrightarrow>
             (r = Inr () \<and> (\<exists>c. written s' filename = written s filename @ [c]))
             \<or> ((\<exists>e. r = Inl e) \<and> written s' filename = written s filename)"
    and "seq_io ms s = (r, s')"
  shows "\<exists>hs. written s' filename = written s filename @ hs \<and> length hs \<le> length ms
              \<and> (r = Inr () \<longrightarrow> length hs = length ms)
              \<and> (length hs < length ms \<longrightarrow> (\<exists>e. r = Inl e))"
  using assms
proof (induction ms arbitrary: s)
  case Nil
  then show ?case by auto
next
  case (Cons m ms)
  obtain r1 s1 where step: "m s = (r1, s1)" by (cases "m s")
  from Cons.prems(1)[of m s r1 s1] step
  consider (ok) c where "r1 = Inr ()" "written s1 filename = written s filename @ [c]"
    | (raised) e where "r1 = Inl e" "written s1 filename = written s filename"
    by auto
  then show ?case
  proof cases
    case ok
    with step Cons.prems(2) have rest: "seq_io ms s1 = (r, s')" by simp
    have "\<exists>hs. written s' filename = written s1 filename @ hs \<and> length hs \<le> length ms
              \<and> (r = Inr () \<longrightarrow> length hs = length ms)
              \<and> (length hs < length ms \<longrightarrow> (\<exists>e. r = Inl e))"
    proof (rule Cons.IH[OF _ rest])
      fix m' s r s'
      assume "m' \<in> set ms" and "m' s = (r, s')"
      then show "(r = Inr () \<and> (\<exists>c. written s' filename = written s filename @ [c]))
             \<or> ((\<exists>e. r = Inl e) \<and> written s' filename = written s filename)"
        using Cons.prems(1)[of m' s r s'] by simp
    qed
    then obtain hs where "written s' filename = written s1 filename @ hs"
      "length hs \<le> length ms" "r = Inr () \<longrightarrow> length hs = length ms"
      "length hs < length ms \<longrightarrow> (\<exists>e. r = Inl e)"
      by blast
    with ok show ?thesis
      by (intro exI[of _ "c # hs"]) auto
  next
    case raised
    with step Cons.prems(2) have "r = Inl e" "s' = s1" by simp_all
    with raised show ?thesis by (intro exI[of _ "[]"]) auto
  qed
qed

lemma rows_written:
  assumes "seq_io (map (\<lambda>r. f_write w filename (row_line w r)) rows) s = (r, s')"
  shows "\<exists>k. written s' filename = written s filename @ map (row_line w) (take k rows)
             \<and> (r = Inr () \<longrightarrow> k = length rows)"
  using assms
proof (induction rows arbitrary: s)
  case Nil
  then show ?case by auto
next
  case (Cons row rows)
  obtain r1 s1 where step: "f_write w filename (row_line w row) s = (r1, s1)"
    by (cases "f_write w filename (row_line w row) s")
  from f_write_written[OF step]
  consider (ok) "r1 = Inr ()" "written s1 filename = written s filename @ [row_line w row]"
    | (raised) e where "r1 = Inl e" "s1 = s"
    by auto
  then show ?case
  proof cases
    case ok
    with step Cons.prems have "seq_io (map (\<lambda>r. f_write w filename (row_line w r)) rows) s1 = (r, s')"
      by simp
    from Cons.IH[OF this] obtain k where
      "written s' filename = written s1 filename @ map (row_line w) (take k rows)"
      "r = Inr () \<longrightarrow> k = length rows"
      by blast
    with ok show ?thesis by (intro exI[of _ "Suc k"]) auto
  next
    case raised
    with step Cons.prems have "r = Inl e" "s' = s" by simp_all
    then show ?thesis by (intro exI[of _ 0]) auto
  qed
qed

lemma header_writes_append:
  assumes "m \<in> set (header_writes w filename)" and "m s = (r, s')"
  shows "(r = Inr () \<and> (\<exists>c. written s' filename = written s filename @ [c]))
         \<or> ((\<exists>e. r = Inl e) \<and> written s' filename = written s filename)"
  using assms
  by (auto simp: header_writes_def bind_io_def now_def written_def dest!: f_write_written)


lemma written_console [simp]: "written (s\<lparr>console := c\<rparr>) filename = written s filename"
  by (simp add: written_def)

lemma write_table_written:
  assumes "write_table w rows filename s = (r, s')" and "written s filename = []"
  shows "\<exists>hs k. written s' filename = hs @ map (row_line w) (take k rows)
               \<and> length hs \<le> 5 \<and> (length hs < 5 \<longrightarrow> k = 0)
               \<and> (r = Inr () \<longrightarrow> length hs = 5 \<and> k = length rows)"
proof (cases "open_raises w filename")
  case (Some e)
  with assms have "s' = s" "r = Inl e"
    by (simp_all add: write_table_def with_open_def open_w_def)
  with assms(2) show ?thesis
    by (intro exI[of _ "[]"] exI[of _ 0]) simp
next
  case None
  let ?s1 = "s\<lparr>files := AList.update filename (TextFile []) (files s)\<rparr>"
  let ?rows = "map (\<lambda>r. f_write w filename (row_line w r)) rows"
  have opened: "open_w w filename s = (Inr (), ?s1)"
    using None by (simp add: open_w_def)
  have empty: "written ?s1 filename = []"
    by (rule written_update_same)
  obtain rb s2 where body: "seq_io (header_writes w filename @ ?rows) ?s1 = (rb, s2)"
    by (cases "seq_io (header_writes w filename @ ?rows) ?s1")
  with assms(1) opened have final: "s' = s2" "r = Inr () \<longrightarrow> rb = Inr ()"
    by (auto simp: write_table_def with_open_def split: option.splits)
  obtain rh sh where header: "seq_io (header_writes w filename) ?s1 = (rh, sh)"
    by (cases "seq_io (header_writes w filename) ?s1")
  have five: "length (header_writes w filename) = 5"
    by (simp add: header_writes_def)
  have "\<exists>hs. written sh filename = written ?s1 filename @ hs
              \<and> length hs \<le> length (header_writes w filename)
              \<and> (rh = Inr () \<longrightarrow> length hs = length (header_writes w filename))
              \<and> (length hs < length (header_writes w filename) \<longrightarrow> (\<exists>e. rh = Inl e))"
  proof (rule seq_io_appends[OF _ header])
    fix m s r s'
    assume "m \<in> set (header_writes w filename)" and "m s = (r, s')"
    then show "(r = Inr () \<and> (\<exists>c. written s' filename = written s filename @ [c]))
         \<or> ((\<exists>e. r = Inl e) \<and> written s' filename = written s filename)"
      by (rule header_writes_append)
  qed
  then obtain hs where hs: "written sh filename = hs" "length hs \<le> 5"
    "rh = Inr () \<longrightarrow> length hs = 5" "length hs < 5 \<longrightarrow> (\<exists>e. rh = Inl e)"
    unfolding five empty by auto
  show ?thesis
  proof (cases rh)
    case (Inl e)
    with body header have "s2 = sh" "rb = Inl e"
      by (simp_all add: seq_io_append)
    with final hs Inl show ?thesis
      by (intro exI[of _ hs] exI[of _ 0]) auto
  next
    case (Inr u)
    with body header have "seq_io ?rows sh = (rb, s2)"
      by (simp add: seq_io_append)
    from rows_written[OF this] obtain k where
      "written s2 filename = written sh filename @ map (row_line w) (take k rows)"
      "rb = Inr () \<longrightarrow> k = length rows"
      by blast
    with final hs Inr show ?thesis
      by (intro exI[of _ hs] exI[of _ k]) auto
  qed
qed

lemma seq_io_all_ok:
  assumes "\<And>m s. m \<in> set ms \<Longrightarrow> fst (m s) = Inr ()"
  shows "fst (seq_io ms s) = Inr ()"
  using assms
proof (induction ms arbitrary: s)
  case Nil
  then show ?case by simp
next
  case (Cons m ms)
  from Cons.prems[of m s] obtain s1 where "m s = (Inr (), s1)"
    by (cases "m s") auto
  moreover have "fst (seq_io ms s1) = Inr ()"
    by (rule Cons.IH) (simp add: Cons.prems)
  ultimately show ?case by simp
qed

lemma write_table_no_fault:
  assumes "open_raises w filename = None" and "\<forall>i. write_raises w filename i = None"
    and "close_raises w filename = None"
  shows "fst (write_table w rows filename s) = Inr ()"
proof -
  have "fst (seq_io (header_writes w filename
                       @ map (\<lambda>r. f_write w filename (row_line w r)) rows) s1) = Inr ()" for s1
    by (rule seq_io_all_ok)
      (auto simp: header_writes_def f_write_def bind_io_def now_def assms(2))
  then show ?thesis
    using assms(1,3)
    by (simp add: write_table_def with_open_def open_w_def split: prod.splits)
qed

lemma save_to_text_file_written:
  assumes "written s filename = []"
  shows "\<exists>hs k. written (snd (save_to_text_file w (Some rows) filename s)) filename
                   = hs @ map (row_line w) (take k rows)
               \<and> length hs \<le> 5 \<and> (length hs < 5 \<longrightarrow> k = 0)
               \<and> (open_raises w filename = None \<and> (\<forall>i. write_raises w filename i = None)
                    \<and> close_raises w filename = None
                  \<longrightarrow> length hs = 5 \<and> k = length rows)"
proof -
  obtain r s' where table: "write_table w rows filename s = (r, s')"
    by (cases "write_table w rows filename s")
  from write_table_written[OF table assms] obtain hs k where
    *: "written s' filename = hs @ map (row_line w) (take k rows)"
    "length hs \<le> 5" "length hs < 5 \<longrightarrow> k = 0" "r = Inr () \<longrightarrow> length hs = 5 \<and> k = length rows"
    by blast
  have "written (snd (save_to_text_file w (Some rows) filename s)) filename
          = written s' filename"
    using table by (cases r) (simp_all add: save_to_text_file_def try_except_def print_def)
  moreover have "r = Inr ()"
    if "open_raises w filename = None \<and> (\<forall>i. write_raises w filename i = None)
                    \<and> close_raises w filename = None"
    using write_table_no_fault[of w filename rows s] that table by simp
  ultimately show ?thesis
    using * by (intro exI[of _ hs] exI[of _ k]) auto
qed

lemma written_plt:
  "c \<noteq> Savefig filename \<Longrightarrow> written (snd (plt w c s)) filename = written s filename"
  by (auto simp: plt_def written_def update_conv' split: option.splits plt_call.splits)

lemma written_create_price_graph:
  assumes "chart_file \<noteq> filename"
  shows "written (snd (create_price_graph w stock days_tracked df chart_file s)) filename
           = written s filename"
  unfolding create_price_graph_def draw_chart_def Let_def
  using assms
  by (cases df)
    (auto intro!: try_except_keeps seq_io_keeps bind_io_keeps
          simp: print_def written_plt lift_io_def)


lemma get_stock_data_good_response:
  assumes "get_stock_data w api_key ticker days_tracked s = (r, s')"
    and "requests s' = requests s @ [req]"
    and "http_get w req = Inr response"
    and "status_code response = 200" and "resp_json response = Json (Object (Some results))"
    and "results \<noteq> []"
  shows "(r = Inr (Some (map (row_of_bar w) results)) \<or> (\<exists>e. r = Inl e))
         \<and> s' = s\<lparr>ticks := Suc (Suc (ticks s)), requests := requests s @ [req]\<rparr>"
proof (cases "py_int days_tracked")
  case None
  with get_stock_data_no_request[of days_tracked w s api_key ticker] assms(1,2)
  show ?thesis by auto
next
  case (Some n)
  show ?thesis
  proof (cases "\<bar>n\<bar> \<le> 999999999 \<and> 1 \<le> ordinal (clock w (Suc (ticks s))) - n
                 \<and> ordinal (clock w (Suc (ticks s))) - n \<le> max_ordinal")
    case False
    with Some get_stock_data_no_request[of days_tracked w s api_key ticker] assms(1,2)
    show ?thesis by auto
  next
    case True
    let ?req = "\<lparr>url = api_url ticker (strftime_ymd (ordinal (clock w (Suc (ticks s))) - n))
                                    (strftime_ymd (ordinal (clock w (ticks s)))),
                params = api_params api_key\<rparr>"
    from True Some get_stock_data_sends[of days_tracked n w s api_key ticker] assms(1,2)
    have "req = ?req" by simp
    with True Some assms show ?thesis
      by (cases results)
        (auto simp: get_stock_data_request Let_def final_df_def results_eval split: if_splits)
  qed
qed

lemma fetch_and_report_table:
  assumes "get_stock_data w api_key stock days_tracked s = (Inr (Some df), s2)"
  shows "fst (fetch_and_report w api_key stock days_tracked s) = Inr Finished"
    and "written (snd (fetch_and_report w api_key stock days_tracked s)) default_text_filename
         = written (snd (save_to_text_file w (Some df) default_text_filename
              (s2\<lparr>console := console s2
                      @ [newline @ ''Successfully retrieved data for '' @ stock]\<rparr>)))
             default_text_filename"
proof -
  let ?s3 = "s2\<lparr>console := console s2 @ [newline @ ''Successfully retrieved data for '' @ stock]\<rparr>"
  obtain r4 s4 where saved: "save_to_text_file w (Some df) default_text_filename ?s3 = (r4, s4)"
    by (cases "save_to_text_file w (Some df) default_text_filename ?s3")
  then have r4: "r4 = Inr ()"
    using try_except_print[of "write_table w df default_text_filename"
        "\<lambda>e. ''Error saving file: '' @ message e" ?s3]
    by (simp add: save_to_text_file_def)
  obtain r5 s5 where drawn:
    "create_price_graph w stock days_tracked (Some df) default_chart_filename s4 = (r5, s5)"
    by (cases "create_price_graph w stock days_tracked (Some df) default_chart_filename s4")
  then have r5: "r5 = Inr ()"
    using try_except_print[of "draw_chart w stock days_tracked df default_chart_filename"
        "\<lambda>e. ''Error creating graph: '' @ message e" s4]
    by (simp add: create_price_graph_def)
  have result: "fetch_and_report w api_key stock days_tracked s = (Inr Finished, s5)"
    using assms saved drawn r4 r5
    by (simp add: fetch_and_report_def bind_io_def print_def return_io_def)
  then show "fst (fetch_and_report w api_key stock days_tracked s) = Inr Finished"
    by simp
  have "written s5 default_text_filename = written s4 default_text_filename"
    using written_create_price_graph[of default_chart_filename default_text_filename w stock
        days_tracked "Some df" s4] drawn
    by (simp add: default_chart_filename_def default_text_filename_def)
  with result saved show "written (snd (fetch_and_report w api_key stock days_tracked s))
      default_text_filename
         = written (snd (save_to_text_file w (Some df) default_text_filename ?s3))
             default_text_filename"
    by simp
qed

text \<open>
  Claim C5. In a run that ends normally after a response with status 200 and a non-empty
  \<open>results\<close> array: the request asked for \<open>sort=asc\<close>; after the five header chunks the
  text file holds the lines of the bars in the order of the \<open>results\<close> array, nothing else
  and nothing reordered (a failed write can only cut the sequence short); and when no file
  operation fails there is exactly one line per bar.
\<close>

theorem table_rows_keep_api_order:
  assumes "req \<in> set (requests (snd (run w)))" and "http_get w req = Inr response"
    and "status_code response = 200" and "resp_json response = Json (Object (Some results))"
    and "results \<noteq> []" and "fst (run w) = Inr Finished"
  shows "map_of (params req) ''sort'' = Some ''asc''
       \<and> (\<exists>k. drop 5 (written (snd (run w)) default_text_filename)
                 = map (row_line w) (take k (map (row_of_bar w) results)))
       \<and> (open_raises w default_text_filename = None
            \<and> (\<forall>i. write_raises w default_text_filename i = None)
            \<and> close_raises w default_text_filename = None \<longrightarrow>
          length (written (snd (run w)) default_text_filename) = 5 + length results
          \<and> drop 5 (written (snd (run w)) default_text_filename)
              = map (row_line w) (map (row_of_bar w) results))"
proof (cases w rule: run_cases)
  case stopped
  with assms(1) show ?thesis by simp
next
  case (fetched pre key line days rest cons)
  let ?s1 = "(initial w)\<lparr>console := cons, stdin := rest\<rparr>"
  let ?df = "map (row_of_bar w) results"
  obtain r1 s2 where fetch: "get_stock_data w key (upper w line) days ?s1 = (r1, s2)"
    by (cases "get_stock_data w key (upper w line) days ?s1")
  from fetched(4) fetch have "requests (snd (run w)) = requests s2"
    by (simp add: fetch_and_report_requests)
  with assms(1) get_stock_data_requests[of w key "upper w line" days ?s1] fetch
  have sent: "requests s2 = requests ?s1 @ [req]" and "params req = api_params key"
    by (auto simp: initial_def)
  then have sort: "map_of (params req) ''sort'' = Some ''asc''"
    by (auto simp: api_params_def)
  from get_stock_data_good_response[OF fetch sent assms(2-5)]
  have r1: "r1 = Inr (Some ?df) \<or> (\<exists>e. r1 = Inl e)"
    and s2: "s2 = ?s1\<lparr>ticks := Suc (Suc (ticks ?s1)), requests := requests ?s1 @ [req]\<rparr>"
    by blast+
  from r1 assms(6) fetched(4) fetch have table: "r1 = Inr (Some ?df)"
    by (auto simp: fetch_and_report_def bind_io_def)
  let ?s3 = "s2\<lparr>console := console s2
                      @ [newline @ ''Successfully retrieved data for '' @ upper w line]\<rparr>"
  have "written ?s3 default_text_filename = []"
    by (simp add: s2 written_def initial_def)
  from save_to_text_file_written[OF this, of w ?df] obtain hs k where
    content: "written (snd (save_to_text_file w (Some ?df) default_text_filename ?s3))
             default_text_filename = hs @ map (row_line w) (take k ?df)"
    and hs: "length hs \<le> 5" "length hs < 5 \<longrightarrow> k = 0"
    and full: "open_raises w default_text_filename = None
            \<and> (\<forall>i. write_raises w default_text_filename i = None)
            \<and> close_raises w default_text_filename = None
          \<longrightarrow> length hs = 5 \<and> k = length ?df"
    by blast
  from fetch table fetched(4) content
  have final: "written (snd (run w)) default_text_filename = hs @ map (row_line w) (take k ?df)"
    by (simp add: fetch_and_report_table(2))
  have "drop 5 (written (snd (run w)) default_text_filename)
          = map (row_line w) (take (if length hs < 5 then 0 else k) ?df)"
    using final hs by auto
  then have prefix: "\<exists>k. drop 5 (written (snd (run w)) default_text_filename)
                 = map (row_line w) (take k ?df)"
    by blast
  have "length (written (snd (run w)) default_text_filename) = 5 + length results
          \<and> drop 5 (written (snd (run w)) default_text_filename) = map (row_line w) ?df"
    if "open_raises w default_text_filename = None
            \<and> (\<forall>i. write_raises w default_text_filename i = None)
            \<and> close_raises w default_text_filename = None"
    using full that final by auto
  with sort prefix show ?thesis by blast
qed

lemma sample_fields:
  "http_get sample_world req = Inr sample_response"
  "open_raises sample_world filename = None"
  "write_raises sample_world filename i = None"
  "close_raises sample_world filename = None"
  "round2 sample_world x = x"
  "str_float sample_world = str_int"
  by (simp_all add: sample_world_def)

lemma sample_table:
  "final_df sample_world sample_bars = Inr sample_rows"
  by (simp add: final_df_def sample_bars_def sample_rows_def in_timestamp_bounds_def)

theorem table_rows_keep_api_order_witness:
  "length (written (snd (run sample_world)) ''stock_data.txt'') = 7
   \<and> drop 5 (written (snd (run sample_world)) ''stock_data.txt'')
       = [''2026-10-30   101      103      100      102      5000        '' @ newline,
          ''2026-11-02   102      105      101      104      7000        '' @ newline]"
proof -
  let ?req = "\<lparr>url = ''https://api.polygon.io/v2/aggs/ticker/AAPL/range/1/day/2026-10-04/2026-11-03'',
    params = [(''adjusted'', ''true''), (''sort'', ''asc''), (''apikey'', ''KEY'')]\<rparr>"
  let ?s1 = "(initial sample_world)\<lparr>console := [''=== Stock Price Tracker ==='' @ newline,
                                                newline @ ''Enter a Ticker to Track: '',
                                                ''Enter Number of Days: ''],
                                  stdin := []\<rparr>"
  have run: "run sample_world = fetch_and_report sample_world ''KEY'' ''AAPL'' ''30'' ?s1"
    by (rule sample_prompts) (simp_all add: sample_world_def)
  have sent: "?req \<in> set (requests (snd (run sample_world)))"
    by (simp add: run fetch_and_report_requests get_stock_data_sends[OF int_30]
        sample_clock initial_def max_ordinal_def ymd_today ymd_start api_url_def
        api_params_def)
  have answer: "http_get sample_world ?req = Inr sample_response"
    by (rule sample_fields)
  have body: "status_code sample_response = 200"
    "resp_json sample_response = Json (Object (Some sample_bars))" "sample_bars \<noteq> []"
    by (simp_all add: sample_response_def sample_bars_def)
  have "\<exists>s2. get_stock_data sample_world ''KEY'' ''AAPL'' ''30'' ?s1 = (Inr (Some sample_rows), s2)"
    by (simp add: get_stock_data_request[OF int_30] sample_clock initial_def max_ordinal_def
        sample_fields sample_response_def sample_table[unfolded sample_bars_def] sample_bars_def
        results_eval)
  then have finished: "fst (run sample_world) = Inr Finished"
    using fetch_and_report_table(1) by (auto simp: run)
  have calm: "open_raises sample_world default_text_filename = None
            \<and> (\<forall>i. write_raises sample_world default_text_filename i = None)
            \<and> close_raises sample_world default_text_filename = None"
    by (simp add: sample_fields)
  have rows: "map (row_line sample_world) (map (row_of_bar sample_world) sample_bars)
       = [''2026-10-30   101      103      100      102      5000        '' @ newline,
          ''2026-11-02   102      105      101      104      7000        '' @ newline]"
    by (simp add: sample_bars_def row_of_bar_def row_line_def sample_fields date_str_of_ms_def
        date_eval ljust_def) (simp add: eval_nat_numeral)
  from table_rows_keep_api_order[OF sent answer body finished] calm
  have "length (written (snd (run sample_world)) default_text_filename) = 5 + length sample_bars
          \<and> drop 5 (written (snd (run sample_world)) default_text_filename)
              = map (row_line sample_world) (map (row_of_bar sample_world) sample_bars)"
    by blast
  moreover have "length sample_bars = 2"
    by (simp add: sample_bars_def)
  ultimately show ?thesis
    unfolding rows default_text_filename_def by simp
qed

subsection \<open>The calendar\<close>

text \<open>
  The conversion of an ordinal into a date is sound: counting the days up to the date it
  returns gives the ordinal back, and month and day are in range. So two dates whose
  ordinals differ by \<open>n\<close> lie \<open>n\<close> days apart.
\<close>

lemma month_day_correct:
  assumes "0 \<le> n" and "n \<le> 364" and "month_day leapyear n = (m, d)"
  shows "1 \<le> m \<and> m \<le> 12 \<and> 1 \<le> d \<and> d \<le> 31
         \<and> days_before_month m + (if m > 2 \<and> leapyear then 1 else 0) + int d = n + 1"
proof -
  note unfold = month_day_def days_before_month_def days_in_month_def Let_def
  consider "n < 14" | "14 \<le> n \<and> n < 46" | "46 \<le> n \<and> n < 78" | "78 \<le> n \<and> n < 110" | "110 \<le> n \<and> n < 142" | "142 \<le> n \<and> n < 174" | "174 \<le> n \<and> n < 206" | "206 \<le> n \<and> n < 238" | "238 \<le> n \<and> n < 270" | "270 \<le> n \<and> n < 302" | "302 \<le> n \<and> n < 334" | "334 \<le> n"
    by linarith
  then show ?thesis
  proof cases
    case 1
    with assms(1,2) have "(n + 50) div 32 = 1" by arith
    with assms 1 show ?thesis
      by (auto simp: unfold split: if_splits)
  next
    case 2
    with assms(1,2) have "(n + 50) div 32 = 2" by arith
    with assms 2 show ?thesis
      by (auto simp: unfold split: if_splits)
  next
    case 3
    with assms(1,2) have "(n + 50) div 32 = 3" by arith
    with assms 3 show ?thesis
      by (auto simp: unfold split: if_splits)
  next
    case 4
    with assms(1,2) have "(n + 50) div 32 = 4" by arith
    with assms 4 show ?thesis
      by (auto simp: unfold split: if_splits)
  next
    case 5
    with assms(1,2) have "(n + 50) div 32 = 5" by arith
    with assms 5 show ?thesis
      by (auto simp: unfold split: if_splits)
  next
    case 6
    with assms(1,2) have "(n + 50) div 32 = 6" by arith
    with assms 6 show ?thesis
      by (auto simp: unfold split: if_splits)
  next
    case 7
    with assms(1,2) have "(n + 50) div 32 = 7" by arith
    with assms 7 show ?thesis
      by (auto simp: unfold split: if_splits)
  next
    case 8
    with assms(1,2) have "(n + 50) div 32 = 8" by arith
    with assms 8 show ?thesis
      by (auto simp: unfold split: if_splits)
  next
    case 9
    with assms(1,2) have "(n + 50) div 32 = 9" by arith
    with assms 9 show ?thesis
      by (auto simp: unfold split: if_splits)
  next
    case 10
    with assms(1,2) have "(n + 50) div 32 = 10" by arith
    with assms 10 show ?thesis
      by (auto simp: unfold split: if_splits)
  next
    case 11
    with assms(1,2) have "(n + 50) div 32 = 11" by arith
    with assms 11 show ?thesis
      by (auto simp: unfold split: if_splits)
  next
    case 12
    with assms(1,2) have "(n + 50) div 32 = 12" by arith
    with assms 12 show ?thesis
      by (auto simp: unfold split: if_splits)
  qed
qed

lemma div_by_cycles:
  fixes a b c e :: int
  assumes "0 \<le> b" "b \<le> 3" "0 \<le> c" "c \<le> 24" "0 \<le> e" "e \<le> 3"
  shows "(400 * a + 100 * b + 4 * c + e) div 4 = 100 * a + 25 * b + c"
    and "(400 * a + 100 * b + 4 * c + e) div 100 = 4 * a + b"
    and "(400 * a + 100 * b + 4 * c + e) div 400 = a"
  using assms by arith+

lemma days_before_year_cycles:
  fixes a b c e :: int
  assumes "0 \<le> b" "b \<le> 3" "0 \<le> c" "c \<le> 24" "0 \<le> e" "e \<le> 3"
  shows "days_before_year (400 * a + 100 * b + 4 * c + e + 1)
           = 146097 * a + 36524 * b + 1461 * c + 365 * e"
  using div_by_cycles[OF assms, of a] by (simp add: days_before_year_def Let_def)

lemma mod_full_cycle:
  fixes x m :: int
  assumes "1 \<le> x" and "x \<le> m"
  shows "x mod m = 0 \<longleftrightarrow> x = m"
proof (cases "x = m")
  case True
  then show ?thesis by simp
next
  case False
  with assms have "x mod m = x" by simp
  with assms False show ?thesis by simp
qed

lemma mod_by_cycles:
  fixes a b c e :: int
  assumes "0 \<le> b" "b \<le> 3" "0 \<le> c" "c \<le> 24" "0 \<le> e" "e \<le> 3"
  shows "(400 * a + 100 * b + 4 * c + e + 1) mod 4 = 0 \<longleftrightarrow> e = 3"
    and "(400 * a + 100 * b + 4 * c + e + 1) mod 100 = 0 \<longleftrightarrow> e = 3 \<and> c = 24"
    and "(400 * a + 100 * b + 4 * c + e + 1) mod 400 = 0 \<longleftrightarrow> e = 3 \<and> c = 24 \<and> b = 3"
proof -
  have "400 * a + 100 * b + 4 * c + e + 1 = (e + 1) + (100 * a + 25 * b + c) * 4"
    by simp
  then have "(400 * a + 100 * b + 4 * c + e + 1) mod 4 = (e + 1) mod 4"
    by (simp only: mod_mult_self1)
  moreover have "(e + 1) mod 4 = 0 \<longleftrightarrow> e + 1 = 4"
    using assms by (intro mod_full_cycle) simp_all
  moreover have "e + 1 = 4 \<longleftrightarrow> e = 3"
    by arith
  ultimately show "(400 * a + 100 * b + 4 * c + e + 1) mod 4 = 0 \<longleftrightarrow> e = 3"
    by (simp only:)
next
  have "400 * a + 100 * b + 4 * c + e + 1 = (4 * c + e + 1) + (4 * a + b) * 100"
    by simp
  then have "(400 * a + 100 * b + 4 * c + e + 1) mod 100 = (4 * c + e + 1) mod 100"
    by (simp only: mod_mult_self1)
  moreover have "(4 * c + e + 1) mod 100 = 0 \<longleftrightarrow> 4 * c + e + 1 = 100"
    using assms by (intro mod_full_cycle) simp_all
  moreover have "4 * c + e + 1 = 100 \<longleftrightarrow> e = 3 \<and> c = 24"
    using assms by arith
  ultimately show "(400 * a + 100 * b + 4 * c + e + 1) mod 100 = 0 \<longleftrightarrow> e = 3 \<and> c = 24"
    by (simp only:)
next
  have "400 * a + 100 * b + 4 * c + e + 1 = (100 * b + 4 * c + e + 1) + a * 400"
    by simp
  then have "(400 * a + 100 * b + 4 * c + e + 1) mod 400 = (100 * b + 4 * c + e + 1) mod 400"
    by (simp only: mod_mult_self1)
  moreover have "(100 * b + 4 * c + e + 1) mod 400 = 0 \<longleftrightarrow> 100 * b + 4 * c + e + 1 = 400"
    using assms by (intro mod_full_cycle) simp_all
  moreover have "100 * b + 4 * c + e + 1 = 400 \<longleftrightarrow> e = 3 \<and> c = 24 \<and> b = 3"
    using assms by arith
  ultimately show "(400 * a + 100 * b + 4 * c + e + 1) mod 400 = 0
      \<longleftrightarrow> e = 3 \<and> c = 24 \<and> b = 3"
    by (simp only:)
qed

lemma is_leap_cycles:
  fixes a b c e :: int
  assumes "0 \<le> b" "b \<le> 3" "0 \<le> c" "c \<le> 24" "0 \<le> e" "e \<le> 3"
  shows "is_leap (400 * a + 100 * b + 4 * c + e + 1) \<longleftrightarrow> e = 3 \<and> (c \<noteq> 24 \<or> b = 3)"
  unfolding is_leap_def mod_by_cycles[OF assms] by auto

lemma ord2ymd_sound:
  assumes "ord2ymd k = (y, m, d)"
  shows "ymd2ord y m d = k \<and> 1 \<le> m \<and> m \<le> 12 \<and> 1 \<le> d \<and> d \<le> 31"
proof -
  define a where "a = (k - 1) div 146097"
  define r where "r = (k - 1) mod 146097"
  define b where "b = r div 36524"
  define r1 where "r1 = r mod 36524"
  define c where "c = r1 div 1461"
  define r2 where "r2 = r1 mod 1461"
  define e where "e = r2 div 365"
  define n where "n = r2 mod 365"
  note defs = a_def r_def b_def r1_def c_def r2_def e_def n_def
  have k: "k - 1 = 146097 * a + r" and r: "0 \<le> r" "r < 146097"
    by (simp_all add: a_def r_def)
  have rb: "r = 36524 * b + r1" and r1: "0 \<le> r1" "r1 < 36524"
    by (simp_all add: b_def r1_def)
  have rc: "r1 = 1461 * c + r2" and r2: "0 \<le> r2" "r2 < 1461"
    by (simp_all add: c_def r2_def)
  have re: "r2 = 365 * e + n" and n: "0 \<le> n" "n < 365"
    by (simp_all add: e_def n_def)
  have b: "0 \<le> b" "b \<le> 4" using r rb r1 by linarith+
  have c: "0 \<le> c" "c \<le> 24" using r1 rc r2 by linarith+
  have e: "0 \<le> e" "e \<le> 4" using r2 re n by linarith+
  have b4: "r1 = 0" if "b = 4" using that r rb r1 by linarith
  have c24: "r2 < 1460" if "c = 24" using that r1 rc r2 by linarith
  have e4: "n = 0" if "e = 4" using that r2 re n by linarith
  have algorithm: "ord2ymd k =
      (if e = 4 \<or> b = 4 then (a * 400 + 1 + b * 100 + c * 4 + e - 1, 12, 31)
       else case month_day (e = 3 \<and> (c \<noteq> 24 \<or> b = 3)) n of
              (month, day) \<Rightarrow> (a * 400 + 1 + b * 100 + c * 4 + e, month, day))"
    by (simp add: ord2ymd_def Let_def defs)
  show ?thesis
  proof (cases "e = 4 \<or> b = 4")
    case True
    with algorithm assms have ymd: "y = 400 * a + 100 * b + 4 * c + e" "m = 12" "d = 31"
      by simp_all
    show ?thesis
    proof (cases "b = 4")
      case True
      with b4 rc r2 c re n e have zero: "c = 0" "e = 0" "n = 0" "r1 = 0"
        by linarith+
      have "y = 400 * a + 100 * 3 + 4 * 24 + 3 + 1"
        using ymd True zero by simp
      moreover have "days_before_year (400 * a + 100 * 3 + 4 * 24 + 3 + 1)
                       = 146097 * a + 36524 * 3 + 1461 * 24 + 365 * 3"
        by (rule days_before_year_cycles) simp_all
      moreover have "is_leap (400 * a + 100 * 3 + 4 * 24 + 3 + 1)"
        by (subst is_leap_cycles) simp_all
      ultimately have "ymd2ord y 12 31 = 146097 * a + 146097"
        by (simp add: ymd2ord_def days_before_month_def)
      with k rb True zero ymd show ?thesis by simp
    next
      case False
      with True have e4': "e = 4" by simp
      with e4 have n0: "n = 0" by simp
      from False b have b3: "b \<le> 3" by simp
      from e4' re n0 c24 have c23: "c \<le> 23"
        using c by (cases "c = 24") auto
      have "y = 400 * a + 100 * b + 4 * c + 3 + 1"
        using ymd e4' by simp
      moreover have "days_before_year (400 * a + 100 * b + 4 * c + 3 + 1)
                       = 146097 * a + 36524 * b + 1461 * c + 365 * 3"
        using b b3 c c23 by (intro days_before_year_cycles) simp_all
      moreover have "is_leap (400 * a + 100 * b + 4 * c + 3 + 1)"
        using b b3 c c23 by (subst is_leap_cycles) simp_all
      ultimately have "ymd2ord y 12 31 = 146097 * a + 36524 * b + 1461 * c + 1461"
        by (simp add: ymd2ord_def days_before_month_def)
      with k rb rc re e4' n0 ymd show ?thesis by simp
    qed
  next
    case False
    with b e have b3: "b \<le> 3" and e3: "e \<le> 3" by simp_all
    let ?leap = "e = 3 \<and> (c \<noteq> 24 \<or> b = 3)"
    from False algorithm assms have y: "y = 400 * a + 100 * b + 4 * c + e + 1"
      and md: "month_day ?leap n = (m, d)"
      by (auto split: prod.splits)
    from month_day_correct[OF n(1) _ md] n(2)
    have range: "1 \<le> m \<and> m \<le> 12 \<and> 1 \<le> d \<and> d \<le> 31"
      and day: "days_before_month m + (if m > 2 \<and> ?leap then 1 else 0) + int d = n + 1"
      by simp_all
    have "days_before_year y = 146097 * a + 36524 * b + 1461 * c + 365 * e"
      unfolding y using b(1) b3 c e(1) e3 by (rule days_before_year_cycles)
    moreover have "is_leap y \<longleftrightarrow> ?leap"
      unfolding y using b(1) b3 c e(1) e3 by (rule is_leap_cycles)
    ultimately have "ymd2ord y m d = 146097 * a + 36524 * b + 1461 * c + 365 * e + n + 1"
      using day by (simp add: ymd2ord_def)
    with k rb rc re range show ?thesis by simp
  qed
qed

lemma div_between:
  fixes x q :: int
  assumes "0 < q"
  shows "q * (x div q) \<le> x" and "x - (q - 1) \<le> q * (x div q)"
proof -
  have "x = q * (x div q) + x mod q" by simp
  moreover have "0 \<le> x mod q" "x mod q < q" using assms by simp_all
  ultimately show "q * (x div q) \<le> x" and "x - (q - 1) \<le> q * (x div q)" by linarith+
qed

lemma days_before_year_bounds:
  "y \<le> 998 \<Longrightarrow> days_before_year y \<le> 364147"
  "days_before_year 999 = 364512"
  "10000 \<le> y \<Longrightarrow> 3652059 \<le> days_before_year y"
proof -
  define x where "x = y - 1"
  define q4 where "q4 = x div 4"
  define q100 where "q100 = x div 100"
  define q400 where "q400 = x div 400"
  have dby: "400 * days_before_year y = 146000 * x + 400 * q4 - 400 * q100 + 400 * q400"
    by (simp add: days_before_year_def Let_def x_def q4_def q100_def q400_def)
  have q: "4 * q4 \<le> x" "x - 3 \<le> 4 * q4" "100 * q100 \<le> x" "x - 99 \<le> 100 * q100"
    "400 * q400 \<le> x" "x - 399 \<le> 400 * q400"
    unfolding q4_def q100_def q400_def using div_between[of 4 x] div_between[of 100 x]
      div_between[of 400 x] by simp_all
  show "days_before_year y \<le> 364147" if "y \<le> 998"
  proof -
    from that have "x \<le> 997" by (simp add: x_def)
    with q have "146000 * x + 400 * q4 - 400 * q100 + 400 * q400 \<le> 145659105"
      by linarith
    with dby show ?thesis by linarith
  qed
  show "3652059 \<le> days_before_year y" if "10000 \<le> y"
  proof -
    from that have "9999 \<le> x" by (simp add: x_def)
    with q have "1460823204 \<le> 146000 * x + 400 * q4 - 400 * q100 + 400 * q400"
      by linarith
    with dby show ?thesis by linarith
  qed
  show "days_before_year 999 = 364512"
    by (simp add: days_before_year_def)
qed

lemma days_before_month_range:
  assumes "m \<le> 12"
  shows "0 \<le> days_before_month m \<and> days_before_month m \<le> 334"
proof -
  have "days_before_month m \<in> set [0, 0, 31, 59, 90, 120, 151, 181, 212, 243, 273, 304, 334]"
    unfolding days_before_month_def using assms by (intro nth_mem) simp
  then show ?thesis by auto
qed

lemma ord2ymd_year_range:
  assumes "364878 \<le> k" and "k \<le> 3652059" and "ord2ymd k = (y, m, d)"
  shows "1000 \<le> y \<and> y \<le> 9999"
proof -
  from ord2ymd_sound[OF assms(3)]
  have k: "days_before_year y + (days_before_month m + (if m > 2 \<and> is_leap y then 1 else 0))
             + int d = k"
    and m: "m \<le> 12" and d: "1 \<le> d" "d \<le> 31"
    by (simp_all add: ymd2ord_def)
  from days_before_month_range[OF m]
  have dbm: "0 \<le> days_before_month m" "days_before_month m \<le> 334" by simp_all
  have "y \<le> 9999"
  proof (rule ccontr)
    assume "\<not> y \<le> 9999"
    then have "3652059 \<le> days_before_year y"
      by (intro days_before_year_bounds) simp
    with k dbm d assms(2) show False by (simp split: if_splits)
  qed
  moreover have "1000 \<le> y"
  proof (rule ccontr)
    assume "\<not> 1000 \<le> y"
    then consider "y \<le> 998" | "y = 999" by linarith
    then show False
    proof cases
      case 1
      then have "days_before_year y \<le> 364147" by (rule days_before_year_bounds)
      with k dbm d assms(1) show False by (simp split: if_splits)
    next
      case 2
      then have "days_before_year y = 364512" "\<not> is_leap y"
        by (simp_all add: days_before_year_bounds is_leap_def)
      with k dbm d assms(1) show False by simp
    qed
  qed
  ultimately show ?thesis by simp
qed

lemma isdigit_digit_char: "n < 10 \<Longrightarrow> isdigit (digit_char n)"
  unfolding isdigit_def digit_char_def by (rule nth_mem) simp

lemma str_nat_two:
  assumes "n < 100"
  shows "zfill 2 (str_nat n) = [digit_char (n div 10), digit_char (n mod 10)]"
proof (cases "n < 10")
  case True
  then show ?thesis by (simp add: str_nat_digit zfill_def digit_char_def)
next
  case False
  with assms have "n div 10 < 10" by simp
  with False show ?thesis by (simp add: str_nat_more str_nat_digit zfill_def)
qed

lemma str_nat_four:
  assumes "1000 \<le> n" and "n < 10000"
  shows "str_nat n
           = [digit_char (n div 1000), digit_char (n div 100 mod 10),
              digit_char (n div 10 mod 10), digit_char (n mod 10)]"
proof -
  have "str_nat n = str_nat (n div 10) @ [digit_char (n mod 10)]"
    using assms by (intro str_nat_more) simp
  moreover have "str_nat (n div 10) = str_nat (n div 100) @ [digit_char (n div 10 mod 10)]"
    using assms str_nat_more[of "n div 10"] by (simp add: div_mult2_eq[symmetric])
  moreover have "str_nat (n div 100) = str_nat (n div 1000) @ [digit_char (n div 100 mod 10)]"
    using assms str_nat_more[of "n div 100"] by (simp add: div_mult2_eq[symmetric])
  moreover have "str_nat (n div 1000) = [digit_char (n div 1000)]"
    using assms by (intro str_nat_digit) simp
  ultimately show ?thesis by simp
qed

lemma strftime_ymd_shape:
  assumes "364878 \<le> k" and "k \<le> max_ordinal"
  shows "is_iso_date (strftime_ymd k)"
proof -
  obtain y m d where ymd: "ord2ymd k = (y, m, d)"
    by (cases "ord2ymd k") auto
  from ord2ymd_year_range[OF assms(1) _ ymd] assms(2)
  have y: "1000 \<le> y" "y \<le> 9999" by (simp_all add: max_ordinal_def)
  from ord2ymd_sound[OF ymd] have m: "m \<le> 12" and d: "d \<le> 31" by simp_all
  from y have year: "str_int y
           = [digit_char (nat y div 1000), digit_char (nat y div 100 mod 10),
              digit_char (nat y div 10 mod 10), digit_char (nat y mod 10)]"
    by (simp add: str_int_def str_nat_four)
  from y have "nat y div 1000 < 10" by simp
  with year m d ymd show ?thesis
    by (simp add: strftime_ymd_def is_iso_date_def str_nat_two isdigit_digit_char)
qed

subsection \<open>The date range of the request\<close>

text \<open>
  Claim C3, amended. For a lookback text that \<open>int()\<close> reads as \<open>n\<close>, when the two
  readings of the clock fall on the same day and that day less \<open>n\<close> days is a
  representable date (year 1 to 9999), \<open>get_stock_data\<close> sends one request whose URL
  holds, after the ticker and \<open>/range/1/day/\<close>, the date \<open>n\<close> days before today and
  today's date, each rendered by \<open>strftime('%Y-%m-%d')\<close>; the two dates lie exactly
  \<open>n\<close> days apart; and from the year 1000 on (ordinal 364878) each has the shape
  \<open>YYYY-MM-DD\<close>.
\<close>

theorem date_range_spans_lookback:
  assumes "py_int days_tracked = Some n"
    and "ordinal (clock w (Suc (ticks s))) = ordinal (clock w (ticks s))"
    and "1 \<le> ordinal (clock w (ticks s))" and "ordinal (clock w (ticks s)) \<le> max_ordinal"
    and "1 \<le> ordinal (clock w (ticks s)) - n"
    and "ordinal (clock w (ticks s)) - n \<le> max_ordinal"
  shows "let today = ordinal (clock w (ticks s)); start = today - n;
             end_date = strftime_ymd today; start_date = strftime_ymd start
         in requests (snd (get_stock_data w api_key ticker days_tracked s))
              = requests s @
                [\<lparr>url = ''https://api.polygon.io/v2/aggs/ticker/'' @ ticker
                          @ ''/range/1/day/'' @ start_date @ ''/'' @ end_date,
                  params = api_params api_key\<rparr>]
            \<and> (case (ord2ymd start, ord2ymd today) of
                 ((y0, m0, d0), (y1, m1, d1)) \<Rightarrow> ymd2ord y1 m1 d1 - ymd2ord y0 m0 d0 = n)
            \<and> (364878 \<le> start \<and> 364878 \<le> today \<longrightarrow>
                 is_iso_date start_date \<and> is_iso_date end_date)"
proof -
  let ?today = "ordinal (clock w (ticks s))"
  from assms(3-6) have "\<bar>n\<bar> \<le> 999999999"
    by (simp add: max_ordinal_def)
  with assms have sent: "requests (snd (get_stock_data w api_key ticker days_tracked s))
           = requests s @
             [\<lparr>url = api_url ticker (strftime_ymd (?today - n)) (strftime_ymd ?today),
               params = api_params api_key\<rparr>]"
    using get_stock_data_sends[of days_tracked n w s api_key ticker] by simp
  obtain y0 m0 d0 where start: "ord2ymd (?today - n) = (y0, m0, d0)"
    by (cases "ord2ymd (?today - n)") auto
  obtain y1 m1 d1 where today: "ord2ymd ?today = (y1, m1, d1)"
    by (cases "ord2ymd ?today") auto
  from ord2ymd_sound[OF start] ord2ymd_sound[OF today]
  have apart: "ymd2ord y1 m1 d1 - ymd2ord y0 m0 d0 = n"
    by simp
  have shape: "is_iso_date (strftime_ymd (?today - n)) \<and> is_iso_date (strftime_ymd ?today)"
    if "364878 \<le> ?today - n \<and> 364878 \<le> ?today"
    using that assms(4,6) by (simp add: strftime_ymd_shape)
  from sent apart shape start today show ?thesis
    by (simp add: Let_def api_url_def)
qed

lemma iso_examples: "is_iso_date ''2026-10-04''" "is_iso_date ''2026-11-03''"
  by (simp_all add: is_iso_date_def isdigit_def)

theorem date_range_spans_lookback_witness:
  "requests (snd (get_stock_data sample_world ''KEY'' ''AAPL'' ''30'' (initial sample_world)))
     = [\<lparr>url = ''https://api.polygon.io/v2/aggs/ticker/AAPL/range/1/day/2026-10-04/2026-11-03'',
         params = [(''adjusted'', ''true''), (''sort'', ''asc''), (''apikey'', ''KEY'')]\<rparr>]
   \<and> ord2ymd 739893 = (2026, 10, 4) \<and> ord2ymd 739923 = (2026, 11, 3)
   \<and> ymd2ord 2026 11 3 - ymd2ord 2026 10 4 = 30
   \<and> is_iso_date ''2026-10-04'' \<and> is_iso_date ''2026-11-03''"
proof -
  let ?s = "initial sample_world"
  have today: "ordinal (clock sample_world (ticks ?s)) = 739923"
    "ordinal (clock sample_world (Suc (ticks ?s))) = 739923"
    by (simp_all add: sample_clock)
  have dates: "ord2ymd 739893 = (2026, 10, 4)" "ord2ymd 739923 = (2026, 11, 3)"
    by (simp_all add: ord2ymd_def month_day_def days_before_month_def days_in_month_def Let_def)
  from date_range_spans_lookback[of "''30''" 30 sample_world ?s "''KEY''" "''AAPL''"]
  have "requests (snd (get_stock_data sample_world ''KEY'' ''AAPL'' ''30'' ?s))
              = requests ?s @
                [\<lparr>url = ''https://api.polygon.io/v2/aggs/ticker/'' @ ''AAPL''
                          @ ''/range/1/day/'' @ strftime_ymd 739893 @ ''/'' @ strftime_ymd 739923,
                  params = api_params ''KEY''\<rparr>]
            \<and> ymd2ord 2026 11 3 - ymd2ord 2026 10 4 = 30
            \<and> is_iso_date (strftime_ymd 739893) \<and> is_iso_date (strftime_ymd 739923)"
    by (simp add: int_30 today max_ordinal_def dates Let_def)
  then show ?thesis
    by (simp add: ymd_today ymd_start dates initial_def api_params_def)
qed

end
